theory Spec2Isabelle
  imports Main
begin

section \<open>Python values and exceptions\<close>

text \<open>
  The node classes of \<^verbatim>\<open>daemon/core/netns/nodes.py\<close> are embedded as functions on
  records. A method that can raise returns a sum: \<open>Inl\<close> carries the exception,
  \<open>Inr\<close> the returned value. Where a method mutates the object before it raises, the
  object is returned next to the outcome.
\<close>

datatype message =
    PtpAtMost2        \<comment> \<open>"Point-to-point links support at most 2 network interfaces"\<close>
  | RJ45AtMost1       \<comment> \<open>"RJ45 nodes support at most 1 network interface"\<close>
  | IfindexNotExist int  \<comment> \<open>"ifindex %s does not exist"\<close>
  | InvalidLiteral string  \<comment> \<open>raised by \<open>int(mask)\<close>\<close>
  | UnpackFailed      \<comment> \<open>raised by a tuple assignment of the wrong length\<close>

text \<open>
  The host commands the node classes run. Each constructor stands for one argument
  list of the source; \<open>argv\<close> gives the words, with the paths of the binaries
  (\<open>core.constants\<close>, not among the sources) as parameters.
\<close>

datatype cmd =
    BrctlShow
  | BrctlAddif string string
  | BrctlDelif string string
  | Updown string string string
  | LinkSet string bool
  | AddrFlush string
  | AddrAdd string "string option" string
  | AddrDel string string
  | AddrShow string
  | QdiscDel string

record bins =
  BRCTL_BIN :: string
  IP_BIN :: string
  TC_BIN :: string

fun argv :: "bins \<Rightarrow> cmd \<Rightarrow> string list" where
  "argv B BrctlShow = [BRCTL_BIN B, ''show'']"
| "argv B (BrctlAddif br ifc) = [BRCTL_BIN B, ''addif'', br, ifc]"
| "argv B (BrctlDelif br ifc) = [BRCTL_BIN B, ''delif'', br, ifc]"
| "argv B (Updown script br phase) = [script, br, phase]"
| "argv B (LinkSet dev up) = [IP_BIN B, ''link'', ''set'', dev, if up then ''up'' else ''down'']"
| "argv B (AddrFlush dev) = [IP_BIN B, ''addr'', ''flush'', ''dev'', dev]"
| "argv B (AddrAdd a None dev) = [IP_BIN B, ''addr'', ''add'', a, ''dev'', dev]"
| "argv B (AddrAdd a (Some b) dev) = [IP_BIN B, ''addr'', ''add'', a, ''brd'', b, ''dev'', dev]"
| "argv B (AddrDel a dev) = [IP_BIN B, ''addr'', ''del'', a, ''dev'', dev]"
| "argv B (AddrShow dev) = [IP_BIN B, ''addr'', ''show'', ''dev'', dev]"
| "argv B (QdiscDel dev) = [TC_BIN B, ''qdisc'', ''del'', ''dev'', dev, ''root'']"

datatype error =
    ValueError message
  | AttributeError     \<comment> \<open>attribute access on \<open>None\<close>\<close>
  | SocketError        \<comment> \<open>\<open>socket.inet_pton\<close> on text that is no address\<close>
  | IndexError
  | UnboundLocalError
  | CalledProcessError cmd  \<comment> \<open>\<open>subprocess.check_call\<close> of a command that fails\<close>

subsection \<open>String methods\<close>

text \<open>\<open>s.partition(c)\<close>: the text before the first \<open>c\<close>, the separator, the text after;
  \<open>(s, '', '')\<close> when \<open>c\<close> does not occur.\<close>

definition partition_at :: "char \<Rightarrow> string \<Rightarrow> string \<times> string \<times> string" where
  "partition_at c s =
     (case dropWhile (\<lambda>x. x \<noteq> c) s of
        [] \<Rightarrow> (s, [], [])
      | _ # after \<Rightarrow> (takeWhile (\<lambda>x. x \<noteq> c) s, [c], after))"

text \<open>\<open>s.split(c)\<close> with a separator: every field between separators, empty ones kept;
  the result is never empty.\<close>

fun split_on :: "char \<Rightarrow> string \<Rightarrow> string list" where
  "split_on c [] = [[]]"
| "split_on c (x # xs) =
     (if x = c then [] # split_on c xs
      else (case split_on c xs of
              [] \<Rightarrow> [[x]]
            | f # fs \<Rightarrow> (x # f) # fs))"

text \<open>\<open>s.split()\<close> without a separator: the maximal runs of non-whitespace.\<close>

definition is_space :: "char \<Rightarrow> bool" where
  "is_space c = (c = CHR '' '' \<or> c = CHR 0x09 \<or> c = CHR 0x0A \<or> c = CHR 0x0B
                 \<or> c = CHR 0x0C \<or> c = CHR 0x0D)"

fun split_ws_acc :: "string \<Rightarrow> string \<Rightarrow> string list" where
  "split_ws_acc cur [] = (if cur = [] then [] else [rev cur])"
| "split_ws_acc cur (x # xs) =
     (if is_space x
      then (if cur = [] then split_ws_acc [] xs else rev cur # split_ws_acc [] xs)
      else split_ws_acc (x # cur) xs)"

definition split_ws :: "string \<Rightarrow> string list" where
  "split_ws s = split_ws_acc [] s"

section \<open>Interfaces and link records\<close>

text \<open>
  Modelled from the spec: the parameter storage of \<open>PyCoreNetIf\<close> (\<open>core.coreobj\<close>, not
  among the sources). The spec gives an interface the parameter set
  \<open>{delay, bandwidth, duplicate, jitter}\<close>; \<open>getparams()\<close> returns the set and
  \<open>getparam(key)\<close> one value of it, \<open>None\<close> when unset. The source reads the keys
  \<open>"delay"\<close>, \<open>"bw"\<close>, \<open>"duplicate"\<close> and \<open>"jitter"\<close>.
\<close>

record params =
  p_delay :: "int option"
  p_bw :: "int option"
  p_duplicate :: "int option"
  p_jitter :: "int option"

text \<open>
  The node an interface belongs to, as the interface sees it. Modelled from the spec:
  \<open>PyCoreNode.getifindex\<close> (\<open>core.coreobj\<close>, not among the sources) returns the index
  of the interface within its node; \<open>node_ifindex\<close> is that answer for the interface
  holding this reference. \<open>position\<close> is what \<open>node.position.get()\<close> returns.
\<close>

record node_ref =
  objid :: int
  node_ifindex :: "int option"
  position :: "int \<times> int \<times> int"

text \<open>A position hook: the callback of the wireless model with the given name, or some
  other callable.\<close>

datatype hook = ModelCallback string | OtherHook string

record netif =
  ifname :: string
  node :: "node_ref option"
  hwaddr :: "string option"
  addrlist :: "string list"
  netif_params :: params
  poshook :: "hook option"

definition getparams :: "netif \<Rightarrow> params" where
  "getparams n = netif_params n"

definition getparam :: "netif \<Rightarrow> string \<Rightarrow> int option" where
  "getparam n key =
     (if key = ''delay'' then p_delay (netif_params n)
      else if key = ''bw'' then p_bw (netif_params n)
      else if key = ''duplicate'' then p_duplicate (netif_params n)
      else if key = ''jitter'' then p_jitter (netif_params n)
      else None)"

datatype family = AF_INET | AF_INET6

text \<open>\<open>ipaddress.IpAddress(af=family, address=ipl)\<close>: the family and the packed bytes.\<close>

datatype IpAddress = IpAddress family string

text \<open>
  The three library functions the address loop calls are parameters of the model:
  \<open>ipaddress.is_ipv4_address\<close> (\<open>core.misc.ipaddress\<close>, not among the sources),
  \<open>socket.inet_pton\<close> (\<open>None\<close> where it raises \<open>socket.error\<close>) and the builtin
  \<open>int\<close> on a string (\<open>None\<close> where it raises \<open>ValueError\<close>).
\<close>

record pylib =
  is_ipv4_address :: "string \<Rightarrow> bool"
  inet_pton :: "family \<Rightarrow> string \<Rightarrow> string option"
  int_of_str :: "string \<Rightarrow> int option"

text \<open>
  Modelled from the spec: \<open>LinkData\<close> (\<open>core.data\<close>, not among the sources), the link
  record of the spec's external interface. A field the constructor call does not name
  is \<open>None\<close>.
\<close>

record LinkData =
  message_type :: "int option"
  node1_id :: "int option"
  node2_id :: "int option"
  link_type :: "int option"
  unidirectional :: "int option"
  delay :: "int option"
  bandwidth :: "int option"
  dup :: "int option"
  jitter :: "int option"
  interface1_id :: "int option"
  interface1_mac :: "string option"
  interface1_ip4 :: "IpAddress option"
  interface1_ip4_mask :: "int option"
  interface1_ip6 :: "IpAddress option"
  interface1_ip6_mask :: "int option"
  interface2_id :: "int option"
  interface2_mac :: "string option"
  interface2_ip4 :: "IpAddress option"
  interface2_ip4_mask :: "int option"
  interface2_ip6 :: "IpAddress option"
  interface2_ip6_mask :: "int option"

definition LinkData_defaults :: LinkData where
  "LinkData_defaults =
     \<lparr> message_type = None, node1_id = None, node2_id = None, link_type = None,
       unidirectional = None, delay = None, bandwidth = None, dup = None, jitter = None,
       interface1_id = None, interface1_mac = None,
       interface1_ip4 = None, interface1_ip4_mask = None,
       interface1_ip6 = None, interface1_ip6_mask = None,
       interface2_id = None, interface2_mac = None,
       interface2_ip4 = None, interface2_ip4_mask = None,
       interface2_ip6 = None, interface2_ip6_mask = None \<rparr>"

section \<open>PtpNet\<close>

text \<open>
  \<open>_netif\<close> is the registry of attached interfaces, a dictionary from index to
  interface; the association list keeps the order in which \<open>items()\<close> yields it, and
  its keys are distinct. \<open>linktype\<close> is the class attribute inherited from \<open>LxBrNet\<close>.
\<close>

record ptpnet =
  ptp_netif :: "(int \<times> netif) list"
  linktype :: int

text \<open>
  Modelled from the spec: \<open>LxBrNet.attach\<close> (\<open>core.netns.vnet\<close>, not among the
  sources). The base keeps an ordered registry of attached interfaces and \<open>attach\<close>
  enters the interface in it; here under the first index no entry uses.
\<close>

definition newifindex :: "(int \<times> netif) list \<Rightarrow> int" where
  "newifindex reg = (if reg = [] then 0 else Max (set (map fst reg)) + 1)"

definition LxBrNet_attach :: "ptpnet \<Rightarrow> netif \<Rightarrow> (error + unit) \<times> ptpnet" where
  "LxBrNet_attach self n =
     (Inr (), self\<lparr>ptp_netif := ptp_netif self @ [(newifindex (ptp_netif self), n)]\<rparr>)"

definition PtpNet_attach :: "ptpnet \<Rightarrow> netif \<Rightarrow> (error + unit) \<times> ptpnet" where
  "PtpNet_attach self n =
     (if length (ptp_netif self) \<ge> 2 then (Inl (ValueError PtpAtMost2), self)
      else LxBrNet_attach self n)"

text \<open>The four address fields of one endpoint, as the loop over \<open>addrlist\<close> leaves them.\<close>

record ipfields =
  ip4 :: "IpAddress option"
  ip4_mask :: "int option"
  ip6 :: "IpAddress option"
  ip6_mask :: "int option"

definition no_ipfields :: ipfields where
  "no_ipfields = \<lparr> ip4 = None, ip4_mask = None, ip6 = None, ip6_mask = None \<rparr>"

text \<open>
  The loop \<open>for address in if1.addrlist\<close> (the source repeats it for \<open>if2\<close>):
  each address overwrites the fields of its family.
\<close>

fun addr_loop :: "pylib \<Rightarrow> string list \<Rightarrow> ipfields \<Rightarrow> error + ipfields" where
  "addr_loop L [] acc = Inr acc"
| "addr_loop L (address # rest) acc =
     (case partition_at CHR ''/'' address of
        (ip, sep, msk) \<Rightarrow>
          (case int_of_str L msk of
             None \<Rightarrow> Inl (ValueError (InvalidLiteral msk))
           | Some m \<Rightarrow>
               if is_ipv4_address L ip then
                 (case inet_pton L AF_INET ip of
                    None \<Rightarrow> Inl SocketError
                  | Some ipl \<Rightarrow>
                      addr_loop L rest
                        (acc\<lparr>ip4 := Some (IpAddress AF_INET ipl), ip4_mask := Some m\<rparr>))
               else
                 (case inet_pton L AF_INET6 ip of
                    None \<Rightarrow> Inl SocketError
                  | Some ipl \<Rightarrow>
                      addr_loop L rest
                        (acc\<lparr>ip6 := Some (IpAddress AF_INET6 ipl), ip6_mask := Some m\<rparr>))))"

definition forward_link ::
  "ptpnet \<Rightarrow> int \<Rightarrow> int \<Rightarrow> netif \<Rightarrow> node_ref \<Rightarrow> ipfields \<Rightarrow> netif \<Rightarrow> node_ref \<Rightarrow> ipfields \<Rightarrow> LinkData"
where
  "forward_link self flags uni if1 n1 a1 if2 n2 a2 =
     \<lparr> message_type = Some flags,
       node1_id = Some (objid n1),
       node2_id = Some (objid n2),
       link_type = Some (linktype self),
       unidirectional = Some uni,
       delay = getparam if1 ''delay'',
       bandwidth = getparam if1 ''bw'',
       dup = getparam if1 ''duplicate'',
       jitter = getparam if1 ''jitter'',
       interface1_id = node_ifindex n1,
       interface1_mac = hwaddr if1,
       interface1_ip4 = ip4 a1,
       interface1_ip4_mask = ip4_mask a1,
       interface1_ip6 = ip6 a1,
       interface1_ip6_mask = ip6_mask a1,
       interface2_id = node_ifindex n2,
       interface2_mac = hwaddr if2,
       interface2_ip4 = ip4 a2,
       interface2_ip4_mask = ip4_mask a2,
       interface2_ip6 = ip6 a2,
       interface2_ip6_mask = ip6_mask a2 \<rparr>"

definition reverse_link :: "netif \<Rightarrow> node_ref \<Rightarrow> node_ref \<Rightarrow> LinkData" where
  "reverse_link if1 n1 n2 =
     LinkData_defaults
       \<lparr> message_type := Some 0,
         node1_id := Some (objid n2),
         node2_id := Some (objid n1),
         delay := getparam if1 ''delay'',
         bandwidth := getparam if1 ''bw'',
         dup := getparam if1 ''duplicate'',
         jitter := getparam if1 ''jitter'',
         unidirectional := Some 1,
         interface1_id := node_ifindex n2,
         interface2_id := node_ifindex n1 \<rparr>"

definition PtpNet_all_link_data :: "pylib \<Rightarrow> ptpnet \<Rightarrow> int \<Rightarrow> error + LinkData list" where
  "PtpNet_all_link_data L self flags =
     (if length (ptp_netif self) \<noteq> 2 then Inr []
      else
        (case ptp_netif self of
           [item1, item2] \<Rightarrow>
             (let if1 = snd item1;
                  if2 = snd item2;
                  uni = (if getparams if1 \<noteq> getparams if2 then 1 else 0)
              in case addr_loop L (addrlist if1) no_ipfields of
                   Inl e \<Rightarrow> Inl e
                 | Inr a1 \<Rightarrow>
                     (case addr_loop L (addrlist if2) no_ipfields of
                        Inl e \<Rightarrow> Inl e
                      | Inr a2 \<Rightarrow>
                          (case node if1 of
                             None \<Rightarrow> Inl AttributeError
                           | Some n1 \<Rightarrow>
                               (case node if2 of
                                  None \<Rightarrow> Inl AttributeError
                                | Some n2 \<Rightarrow>
                                    (let all_links = [forward_link self flags uni if1 n1 a1 if2 n2 a2]
                                     in if uni \<noteq> 0
                                        then Inr (all_links @ [reverse_link if1 n1 n2])
                                        else Inr all_links)))))
         | _ \<Rightarrow> Inl (ValueError UnpackFailed)))"

text \<open>
  The data model of the spec: the addresses of an interface are CIDR strings
  (\<open>ip/mask\<close>) and an attached interface is owned by a node. \<open>addr_ok\<close> says that the
  library accepts the two parts of an address; \<open>netif_ok\<close> that an interface is of
  this kind. On other interfaces \<open>all_link_data\<close> raises.
\<close>

definition addr_family :: "pylib \<Rightarrow> string \<Rightarrow> family" where
  "addr_family L address =
     (if is_ipv4_address L (fst (partition_at CHR ''/'' address)) then AF_INET else AF_INET6)"

definition addr_ok :: "pylib \<Rightarrow> string \<Rightarrow> bool" where
  "addr_ok L address =
     (case partition_at CHR ''/'' address of
        (ip, sep, msk) \<Rightarrow>
          int_of_str L msk \<noteq> None \<and> inet_pton L (addr_family L address) ip \<noteq> None)"

definition netif_ok :: "pylib \<Rightarrow> netif \<Rightarrow> bool" where
  "netif_ok L n = (node n \<noteq> None \<and> list_all (addr_ok L) (addrlist n))"

text \<open>What the descriptor shows of a parsed address: the packed bytes and the mask.\<close>

definition addr_ip :: "pylib \<Rightarrow> string \<Rightarrow> IpAddress" where
  "addr_ip L address =
     IpAddress (addr_family L address)
       (the (inet_pton L (addr_family L address) (fst (partition_at CHR ''/'' address))))"

definition addr_mask :: "pylib \<Rightarrow> string \<Rightarrow> int" where
  "addr_mask L address = the (int_of_str L (snd (snd (partition_at CHR ''/'' address))))"

definition of_family :: "pylib \<Rightarrow> family \<Rightarrow> string list \<Rightarrow> string list" where
  "of_family L f as = filter (\<lambda>a. addr_family L a = f) as"

definition last_option :: "'a list \<Rightarrow> 'a option" where
  "last_option xs = (if xs = [] then None else Some (last xs))"

text \<open>A field after an assignment that may not have happened: the new value if there is
  one, else the old.\<close>

definition pick :: "'a option \<Rightarrow> 'a option \<Rightarrow> 'a option" where
  "pick new old = (case new of None \<Rightarrow> old | Some v \<Rightarrow> Some v)"

subsection \<open>A sample library and sample interfaces\<close>

text \<open>Decimal digits only, as far as the sample addresses need \<open>int\<close>.\<close>

definition is_digit :: "char \<Rightarrow> bool" where
  "is_digit c = (48 \<le> (of_char c :: nat) \<and> (of_char c :: nat) \<le> 57)"

definition dec_int :: "string \<Rightarrow> int option" where
  "dec_int s =
     (if s = [] \<or> \<not> list_all is_digit s then None
      else Some (foldl (\<lambda>a c. 10 * a + (int (of_char c) - 48)) 0 s))"

definition sample_lib :: pylib where
  "sample_lib =
     \<lparr> is_ipv4_address = (\<lambda>s. CHR ''.'' \<in> set s),
       inet_pton = (\<lambda>f s. if s = [] then None else Some s),
       int_of_str = dec_int \<rparr>"

definition sample_params :: "int \<Rightarrow> params" where
  "sample_params d =
     \<lparr> p_delay = Some d, p_bw = Some 1000, p_duplicate = Some 0, p_jitter = Some 0 \<rparr>"

definition sample_if :: "string \<Rightarrow> int \<Rightarrow> string list \<Rightarrow> int \<Rightarrow> netif" where
  "sample_if nm oid addrs d =
     \<lparr> ifname = nm,
       node = Some \<lparr> objid = oid, node_ifindex = Some 0, position = (0, 0, 0) \<rparr>,
       hwaddr = Some ''00:00:00:aa:00:00'',
       addrlist = addrs,
       netif_params = sample_params d,
       poshook = None \<rparr>"

definition sample_ptp :: "netif list \<Rightarrow> ptpnet" where
  "sample_ptp ifs = \<lparr> ptp_netif = zip (map int [0 ..< length ifs]) ifs, linktype = 1 \<rparr>"

definition sample_if1 :: netif where
  "sample_if1 = sample_if ''veth1'' 1 [''10.0.0.1/24'', ''10.0.0.9/16'', ''2001::1/64''] 10"

definition sample_if2 :: netif where
  "sample_if2 = sample_if ''veth2'' 2 [''10.0.0.2/24''] 50"

definition sample_if3 :: netif where
  "sample_if3 = sample_if ''veth3'' 3 [''10.0.0.3/24'', ''2001::3/64'', ''2001::4/48''] 10"

section \<open>CtrlNet\<close>

text \<open>
  The fields \<open>__init__\<close> stores. \<open>ctrl_objid\<close> is a string, as the default
  \<open>"ctrlnet"\<close> is; \<open>ctrl_brname\<close> is the bridge name the base class chose;
  \<open>ctrl_prefixlen\<close> is \<open>self.prefix.prefixlen\<close> as \<open>%s\<close> formats it.
\<close>

record ctrlnet =
  ctrl_objid :: string
  ctrl_brname :: string
  ctrl_prefixlen :: string
  ctrl_hostid :: "int option"
  assign_address :: bool
  updown_script :: "string option"
  serverintf :: "string option"

text \<open>
  What the host and the absent helpers answer: \<open>cmdresult\<close> is \<open>utils.cmdresult\<close>
  (exit status and output), \<open>call_fails\<close> says where \<open>subprocess.check_call\<close> raises
  \<open>CalledProcessError\<close>, \<open>prefix_addr\<close> and \<open>prefix_max_addr\<close> are
  \<open>self.prefix.addr(hostid)\<close> and \<open>self.prefix.max_addr()\<close> of
  \<open>ipaddress.Ipv4Prefix\<close>, as text.
\<close>

record ctrl_env =
  cmdresult :: "cmd \<Rightarrow> int \<times> string"
  call_fails :: "cmd \<Rightarrow> bool"
  prefix_addr :: "int \<Rightarrow> string"
  prefix_max_addr :: string

text \<open>
  The steps \<open>startup\<close> performs, in order: the bridge creation of the base
  (\<open>LxBrNet.startup\<close>), the address assignment (\<open>addrconfig\<close>), and each command
  handed to \<open>check_call\<close>, whether it fails or not. Log lines are left out.
\<close>

datatype step = BaseStartup | AddrConfig "string list" | Ran cmd

text \<open>The body of the loop \<open>for line in lines[1:]\<close>, which returns at the first line
  whose first column has three dot-separated fields, \<open>'b'\<close> and the id first.\<close>

fun scan_bridges :: "string \<Rightarrow> string list \<Rightarrow> bool" where
  "scan_bridges oid [] = False"
| "scan_bridges oid (line # rest) =
     (let cols = split_on CHR 0x09 line;
          flds = split_on CHR ''.'' (hd cols)
      in if length flds = 3 \<and> flds ! 0 = ''b'' \<and> flds ! 1 = oid then True
         else scan_bridges oid rest)"

definition detectoldbridge :: "ctrl_env \<Rightarrow> ctrlnet \<Rightarrow> bool" where
  "detectoldbridge env self =
     (case cmdresult env BrctlShow of
        (retstat, retstr) \<Rightarrow>
          scan_bridges (ctrl_objid self) (drop 1 (split_on CHR 0x0A retstr)))"

text \<open>The end of \<open>startup\<close>: joining the server interface, where a failing command is
  caught and logged.\<close>

definition join_serverintf :: "ctrl_env \<Rightarrow> ctrlnet \<Rightarrow> step list \<Rightarrow> (error + unit) \<times> step list" where
  "join_serverintf env self steps =
     (case serverintf self of
        None \<Rightarrow> (Inr (), steps)
      | Some si \<Rightarrow>
          if call_fails env (BrctlAddif (ctrl_brname self) si)
          then (Inr (), steps @ [Ran (BrctlAddif (ctrl_brname self) si)])
          else (Inr (), steps @ [Ran (BrctlAddif (ctrl_brname self) si), Ran (LinkSet si True)]))"

definition CtrlNet_startup :: "ctrl_env \<Rightarrow> ctrlnet \<Rightarrow> (error + unit) \<times> step list" where
  "CtrlNet_startup env self =
     (if detectoldbridge env self then (Inr (), [])
      else
        (let addr = (case ctrl_hostid self of
                       None \<Rightarrow> prefix_max_addr env
                     | Some h \<Rightarrow> if h \<noteq> 0 then prefix_addr env h else prefix_max_addr env);
             addrs = [addr @ ''/'' @ ctrl_prefixlen self];
             steps = BaseStartup # (if assign_address self then [AddrConfig addrs] else [])
         in case updown_script self of
              None \<Rightarrow> join_serverintf env self steps
            | Some script \<Rightarrow>
                if call_fails env (Updown script (ctrl_brname self) ''startup'')
                then (Inl (CalledProcessError (Updown script (ctrl_brname self) ''startup'')),
                      steps @ [Ran (Updown script (ctrl_brname self) ''startup'')])
                else join_serverintf env self
                       (steps @ [Ran (Updown script (ctrl_brname self) ''startup'')])))"

subsection \<open>A sample control network\<close>

definition unlines :: "string list \<Rightarrow> string" where
  "unlines ls = concat (map (\<lambda>l. l @ [CHR 0x0A]) ls)"

definition sample_ctrl :: ctrlnet where
  "sample_ctrl =
     \<lparr> ctrl_objid = ''ctrlnet'', ctrl_brname = ''b.ctrlnet.2f'', ctrl_prefixlen = ''24'',
       ctrl_hostid = None, assign_address = True, updown_script = None,
       serverintf = Some ''eth1'' \<rparr>"

definition sample_ctrl_env :: "string \<Rightarrow> ctrl_env" where
  "sample_ctrl_env output =
     \<lparr> cmdresult = (\<lambda>c. (0, output)),
       call_fails = (\<lambda>c. False),
       prefix_addr = (\<lambda>h. ''172.16.0.1''),
       prefix_max_addr = ''172.16.0.254'' \<rparr>"

definition stale_line :: string where
  "stale_line = ''b.ctrlnet.1a'' @ [CHR 0x09, CHR 0x09] @ ''8000.000000000000'' @ [CHR 0x09] @ ''no''"

definition foreign_line :: string where
  "foreign_line = ''x.ctrlnet.1a'' @ [CHR 0x09, CHR 0x09] @ ''8000.000000000000'' @ [CHR 0x09] @ ''no''"

definition brctl_header :: string where
  "brctl_header = ''bridge name'' @ [CHR 0x09] @ ''bridge id'' @ [CHR 0x09, CHR 0x09]
                  @ ''STP enabled'' @ [CHR 0x09] @ ''interfaces''"

section \<open>WlanNode\<close>

text \<open>
  The wireless model is a plug-in (\<open>core.mobility\<close>, not among the sources). Modelled
  from the spec: a model has a name, a configuration kind and possibly a position
  callback; \<open>updateconfig(values)\<close> answers whether it accepts the update and may change
  the model; a call of the callback and a call of \<open>setlinkparams()\<close> are recorded as
  events of the network. \<open>WIRELESS\<close> is \<open>RegisterTlvs.WIRELESS.value\<close>.
\<close>

record wmodel =
  model_name :: string
  config_type :: int
  position_callback :: "hook option"

datatype wevent =
    Invoked hook string "int \<times> int \<times> int"  \<comment> \<open>\<open>netif.poshook(netif, x, y, z)\<close>\<close>
  | SetLinkParams string  \<comment> \<open>\<open>self.model.setlinkparams()\<close>\<close>

record wlan =
  wlan_model :: "wmodel option"
  wlan_netifs :: "netif list"
  wlan_events :: "wevent list"

record wlan_env =
  WIRELESS :: int
  updateconfig :: "wmodel \<Rightarrow> string list \<Rightarrow> bool \<times> wmodel"

text \<open>The loop \<open>for netif in self.netifs()\<close>: the hook is set on every interface and
  called for those that have a node.\<close>

fun install_callback :: "hook \<Rightarrow> netif list \<Rightarrow> netif list \<times> wevent list" where
  "install_callback cb [] = ([], [])"
| "install_callback cb (n # ns) =
     (let n' = n\<lparr>poshook := Some cb\<rparr>;
          ev = (case node n' of
                  None \<Rightarrow> []
                | Some nd \<Rightarrow> [Invoked cb (ifname n') (position nd)])
      in case install_callback cb ns of
           (ns', evs) \<Rightarrow> (n' # ns', ev @ evs))"

definition WlanNode_updatemodel :: "wlan_env \<Rightarrow> wlan \<Rightarrow> string \<Rightarrow> string list \<Rightarrow> wlan" where
  "WlanNode_updatemodel env self name vals =
     (case wlan_model self of
        None \<Rightarrow> self
      | Some model \<Rightarrow>
          if model_name model \<noteq> name then self
          else if config_type model = WIRELESS env then
            (case updateconfig env model vals of
               (accepted, model') \<Rightarrow>
                 (let self1 = self\<lparr>wlan_model := Some model'\<rparr>
                  in if \<not> accepted then self1
                     else
                       (let self2 =
                              (case position_callback model' of
                                 None \<Rightarrow> self1
                               | Some cb \<Rightarrow>
                                   (case install_callback cb (wlan_netifs self1) of
                                      (ns, evs) \<Rightarrow>
                                        self1\<lparr>wlan_netifs := ns,
                                              wlan_events := wlan_events self1 @ evs\<rparr>))
                        in self2\<lparr>wlan_events :=
                                   wlan_events self2 @ [SetLinkParams (model_name model')]\<rparr>)))
          else self)"

subsection \<open>A sample wireless network\<close>

definition sample_wlan_env :: wlan_env where
  "sample_wlan_env = \<lparr> WIRELESS = 8, updateconfig = (\<lambda>m vals. (vals \<noteq> [], m)) \<rparr>"

definition sample_model :: "hook option \<Rightarrow> wmodel" where
  "sample_model cb = \<lparr> model_name = ''basic_range'', config_type = 8, position_callback = cb \<rparr>"

definition nodeless_if :: netif where
  "nodeless_if = (sample_if ''veth9'' 9 [] 10)\<lparr>node := None\<rparr>"

definition sample_wlan :: "hook option \<Rightarrow> netif list \<Rightarrow> wlan" where
  "sample_wlan cb ifs =
     \<lparr> wlan_model = Some (sample_model cb), wlan_netifs = ifs, wlan_events = [] \<rparr>"

section \<open>RJ45Node\<close>

text \<open>
  The host interfaces, as far as the commands of this class read and change them: for
  every device name the up flag and the list of addresses, each with its broadcast
  address or \<open>None\<close> (the pairs a HostInterfaceSnapshot of the spec holds).
\<close>

record nic =
  nic_up :: bool
  nic_addrs :: "(string \<times> string option) list"

type_synonym host = "string \<Rightarrow> nic"

fun host_effect :: "cmd \<Rightarrow> host \<Rightarrow> host" where
  "host_effect (LinkSet dev up) h = h(dev := (h dev)\<lparr>nic_up := up\<rparr>)"
| "host_effect (AddrFlush dev) h = h(dev := (h dev)\<lparr>nic_addrs := []\<rparr>)"
| "host_effect (AddrAdd a b dev) h = h(dev := (h dev)\<lparr>nic_addrs := nic_addrs (h dev) @ [(a, b)]\<rparr>)"
| "host_effect (AddrDel a dev) h =
     h(dev := (h dev)\<lparr>nic_addrs := filter (\<lambda>p. fst p \<noteq> a) (nic_addrs (h dev))\<rparr>)"
| "host_effect c h = h"

text \<open>\<open>subprocess.Popen\<close> followed by \<open>wait()\<close> and \<open>stdout.read()\<close>: the command
  cannot be started, or it exits with a status and its output.\<close>

datatype popen_result = PopenOSError | Exited int string

record rj_env =
  cmd_fails :: "cmd \<Rightarrow> host \<Rightarrow> bool"
  popen :: "cmd \<Rightarrow> host \<Rightarrow> popen_result"

definition check_call :: "rj_env \<Rightarrow> cmd \<Rightarrow> host \<Rightarrow> (error + unit) \<times> host" where
  "check_call env c h =
     (if cmd_fails env c h then (Inl (CalledProcessError c), h)
      else (Inr (), host_effect c h))"

text \<open>Modelled from the spec: \<open>utils.mutecall\<close> (\<open>core.misc.utils\<close>, not among the
  sources) runs a best-effort command: a failure is not an error.\<close>

definition mutecall :: "rj_env \<Rightarrow> cmd \<Rightarrow> host \<Rightarrow> host" where
  "mutecall env c h = (if cmd_fails env c h then h else host_effect c h)"

text \<open>
  The node is its own interface: every value of the registry \<open>_netif\<close> is the node
  itself (\<open>Self\<close>). \<open>rj_net\<close> names the attached network. \<open>old_up\<close> and
  \<open>old_addrs\<close> are the snapshot \<open>savestate\<close> takes.
\<close>

datatype self_ref = Self

record rj45 =
  rj_name :: string
  rj_localname :: string
  rj_up :: bool
  rj_ifindex :: "int option"
  rj_net :: "string option"
  rj_netif :: "int \<rightharpoonup> self_ref"
  rj_addrlist :: "string list"
  old_up :: bool
  old_addrs :: "(string \<times> string option) list"

text \<open>The loop \<open>for l in lines.split('\n')\<close> of \<open>savestate\<close>. \<open>items[2]\<close> and
  \<open>items[3]\<close> raise \<open>IndexError\<close> on a line that is too short.\<close>

fun save_lines :: "string \<Rightarrow> string list \<Rightarrow> rj45 \<Rightarrow> (error + unit) \<times> rj45" where
  "save_lines dev [] self = (Inr (), self)"
| "save_lines dev (l # ls) self =
     (let items = split_ws l
      in if length items < 2 then save_lines dev ls self
         else if items ! 1 = dev @ '':'' then
           (if length items < 3 then (Inl IndexError, self)
            else save_lines dev ls
                   (if ''UP'' \<in> set (split_on CHR '','' (butlast (drop 1 (items ! 2))))
                    then self\<lparr>old_up := True\<rparr> else self))
         else if items ! 0 = ''inet'' then
           (if length items < 4 then (Inl IndexError, self)
            else save_lines dev ls
                   (self\<lparr>old_addrs := old_addrs self @ [(items ! 1, Some (items ! 3))]\<rparr>))
         else if items ! 0 = ''inet6'' then
           (if take 4 (items ! 1) = ''fe80'' then save_lines dev ls self
            else save_lines dev ls
                   (self\<lparr>old_addrs := old_addrs self @ [(items ! 1, None)]\<rparr>))
         else save_lines dev ls self)"

definition savestate :: "rj_env \<Rightarrow> rj45 \<Rightarrow> host \<Rightarrow> (error + unit) \<times> rj45" where
  "savestate env self h =
     (let self1 = self\<lparr>old_up := False, old_addrs := []\<rparr>
      in case popen env (AddrShow (rj_localname self1)) h of
           PopenOSError \<Rightarrow> (Inl UnboundLocalError, self1)
         | Exited status output \<Rightarrow>
             if status \<noteq> 0 then (Inr (), self1)
             else save_lines (rj_localname self1) (split_on CHR 0x0A output) self1)"

text \<open>The loop \<open>for addr in self.old_addrs\<close> of \<open>restorestate\<close>.\<close>

fun restore_addrs ::
  "rj_env \<Rightarrow> string \<Rightarrow> (string \<times> string option) list \<Rightarrow> host \<Rightarrow> (error + unit) \<times> host"
where
  "restore_addrs env dev [] h = (Inr (), h)"
| "restore_addrs env dev (addr # rest) h =
     (case (case snd addr of
              None \<Rightarrow> check_call env (AddrAdd (fst addr) None dev) h
            | Some brd \<Rightarrow> check_call env (AddrAdd (fst addr) (Some brd) dev) h) of
        (Inl e, h') \<Rightarrow> (Inl e, h')
      | (Inr u, h') \<Rightarrow> restore_addrs env dev rest h')"

definition restorestate :: "rj_env \<Rightarrow> rj45 \<Rightarrow> host \<Rightarrow> (error + unit) \<times> host" where
  "restorestate env self h =
     (case restore_addrs env (rj_localname self) (old_addrs self) h of
        (Inl e, h') \<Rightarrow> (Inl e, h')
      | (Inr u, h') \<Rightarrow>
          if old_up self then check_call env (LinkSet (rj_localname self) True) h'
          else (Inr (), h'))"

definition RJ45Node_startup :: "rj_env \<Rightarrow> rj45 \<Rightarrow> host \<Rightarrow> (error + unit) \<times> rj45 \<times> host" where
  "RJ45Node_startup env self h =
     (case savestate env self h of
        (Inl e, self1) \<Rightarrow> (Inl e, self1, h)
      | (Inr u, self1) \<Rightarrow>
          (case check_call env (LinkSet (rj_localname self1) True) h of
             (Inl e, h') \<Rightarrow> (Inr (), self1, h')
           | (Inr u', h') \<Rightarrow> (Inr (), self1\<lparr>rj_up := True\<rparr>, h')))"

definition RJ45Node_shutdown :: "rj_env \<Rightarrow> rj45 \<Rightarrow> host \<Rightarrow> (error + unit) \<times> rj45 \<times> host" where
  "RJ45Node_shutdown env self h =
     (if \<not> rj_up self then (Inr (), self, h)
      else
        (case check_call env (LinkSet (rj_localname self) False) h of
           (Inl e, h1) \<Rightarrow> (Inl e, self, h1)
         | (Inr u, h1) \<Rightarrow>
             (case check_call env (AddrFlush (rj_localname self)) h1 of
                (Inl e, h2) \<Rightarrow> (Inl e, self, h2)
              | (Inr u', h2) \<Rightarrow>
                  (let h3 = mutecall env (QdiscDel (rj_localname self)) h2;
                       self1 = self\<lparr>rj_up := False\<rparr>
                   in case restorestate env self1 h3 of
                        (r, h4) \<Rightarrow> (r, self1, h4)))))"

text \<open>Modelled from the spec: \<open>PyCoreNetIf.attachnet\<close> and \<open>PyCoreNetIf.addaddr\<close>
  (\<open>core.coreobj\<close>, not among the sources): the interface refers to the network it is
  attached to, and an address is added to the end of its address list.\<close>

definition attachnet :: "rj45 \<Rightarrow> string \<Rightarrow> rj45" where
  "attachnet self net = self\<lparr>rj_net := Some net\<rparr>"

definition RJ45Node_addaddr :: "rj_env \<Rightarrow> rj45 \<Rightarrow> host \<Rightarrow> string \<Rightarrow> (error + unit) \<times> rj45 \<times> host" where
  "RJ45Node_addaddr env self h addr =
     (case (if rj_up self then check_call env (AddrAdd addr None (rj_name self)) h
            else (Inr (), h)) of
        (Inl e, h') \<Rightarrow> (Inl e, self, h')
      | (Inr u, h') \<Rightarrow> (Inr (), self\<lparr>rj_addrlist := rj_addrlist self @ [addr]\<rparr>, h'))"

text \<open>The loop \<open>for addr in utils.maketuple(addrlist)\<close> of \<open>newnetif\<close>.\<close>

fun addaddrs :: "rj_env \<Rightarrow> rj45 \<Rightarrow> host \<Rightarrow> string list \<Rightarrow> (error + unit) \<times> rj45 \<times> host" where
  "addaddrs env self h [] = (Inr (), self, h)"
| "addaddrs env self h (addr # rest) =
     (case RJ45Node_addaddr env self h addr of
        (Inl e, self', h') \<Rightarrow> (Inl e, self', h')
      | (Inr u, self', h') \<Rightarrow> addaddrs env self' h' rest)"

definition RJ45Node_newnetif ::
  "rj_env \<Rightarrow> rj45 \<Rightarrow> host \<Rightarrow> string option \<Rightarrow> string list \<Rightarrow> int option
     \<Rightarrow> (error + int) \<times> rj45 \<times> host"
where
  "RJ45Node_newnetif env self h net addrs ifindex =
     (let i = (case ifindex of None \<Rightarrow> 0 | Some j \<Rightarrow> j)
      in if rj_net self \<noteq> None then (Inl (ValueError RJ45AtMost1), self, h)
         else
           (let self1 = self\<lparr>rj_netif := (rj_netif self)(i \<mapsto> Self), rj_ifindex := Some i\<rparr>;
                self2 = (case net of None \<Rightarrow> self1 | Some n \<Rightarrow> attachnet self1 n)
            in case addaddrs env self2 h addrs of
                 (Inl e, self3, h') \<Rightarrow> (Inl e, self3, h')
               | (Inr u, self3, h') \<Rightarrow> (Inr i, self3, h')))"

definition RJ45Node_delnetif ::
  "rj_env \<Rightarrow> rj45 \<Rightarrow> host \<Rightarrow> int option \<Rightarrow> (error + unit) \<times> rj45 \<times> host"
where
  "RJ45Node_delnetif env self h ifindex =
     (let i = (case ifindex of None \<Rightarrow> 0 | Some j \<Rightarrow> j)
      in if i \<notin> dom (rj_netif self) then (Inl (ValueError (IfindexNotExist i)), self, h)
         else
           (let self1 = self\<lparr>rj_netif := (rj_netif self)(i := None)\<rparr>
            in if Some i = rj_ifindex self1 then RJ45Node_shutdown env self1 h
               else (Inl (ValueError (IfindexNotExist i)), self1, h)))"

subsection \<open>A sample host and node\<close>

definition quiet_env :: "string \<Rightarrow> rj_env" where
  "quiet_env output = \<lparr> cmd_fails = (\<lambda>c h. False), popen = (\<lambda>c h. Exited 0 output) \<rparr>"

definition fresh_rj45 :: "string \<Rightarrow> rj45" where
  "fresh_rj45 nm =
     \<lparr> rj_name = nm, rj_localname = nm, rj_up = False, rj_ifindex = None, rj_net = None,
       rj_netif = Map.empty, rj_addrlist = [], old_up = False, old_addrs = [] \<rparr>"

definition sample_host :: host where
  "sample_host =
     (\<lambda>dev. \<lparr> nic_up = False, nic_addrs = [] \<rparr>)
       (''eth0'' := \<lparr> nic_up = True,
                      nic_addrs = [(''10.0.0.5/24'', Some ''10.0.0.255''),
                                   (''fe80::1/64'', None),
                                   (''2001:db8::5/64'', None)] \<rparr>)"

definition sample_show :: string where
  "sample_show = unlines
     [''2: eth0: <BROADCAST,MULTICAST,UP,LOWER_UP> mtu 1500 qdisc fq state UP'',
      ''    link/ether 00:11:22:33:44:55 brd ff:ff:ff:ff:ff:ff'',
      ''    inet 10.0.0.5/24 brd 10.0.0.255 scope global eth0'',
      ''       valid_lft forever preferred_lft forever'',
      ''    inet6 fe80::1/64 scope link'',
      ''    inet6 2001:db8::5/64 scope global'']"

text \<open>The link-local test of \<open>savestate\<close>, on an address of the host.\<close>

definition link_local :: "string \<times> string option \<Rightarrow> bool" where
  "link_local a = (snd a = None \<and> take 4 (fst a) = ''fe80'')"

text \<open>The commands of a list succeed one after the other, each on the host the
  earlier ones leave behind.\<close>

fun all_succeed :: "rj_env \<Rightarrow> cmd list \<Rightarrow> host \<Rightarrow> bool" where
  "all_succeed env [] h = True"
| "all_succeed env (c # cs) h =
     (\<not> cmd_fails env c h \<and> all_succeed env cs (host_effect c h))"


text \<open>The commands that \<open>startup\<close> and then \<open>shutdown\<close> hand to \<open>check_call\<close> on
  the device, for a snapshot with the given up flag and addresses. \<open>tc qdisc del\<close> is
  not among them: it is run best-effort.\<close>

definition cycle_cmds :: "string \<Rightarrow> bool \<Rightarrow> (string \<times> string option) list \<Rightarrow> cmd list" where
  "cycle_cmds dev was_up addrs =
     [LinkSet dev True, LinkSet dev False, AddrFlush dev]
     @ map (\<lambda>p. AddrAdd (fst p) (snd p) dev) addrs
     @ (if was_up then [LinkSet dev True] else [])"

text \<open>A host on which exactly one command fails.\<close>

definition failing_env :: "cmd \<Rightarrow> string \<Rightarrow> rj_env" where
  "failing_env bad output = \<lparr> cmd_fails = (\<lambda>c h. c = bad), popen = (\<lambda>c h. Exited 0 output) \<rparr>"


definition bare_if :: "string \<Rightarrow> int \<Rightarrow> int \<Rightarrow> netif" where
  "bare_if nm oid d = sample_if nm oid [] d"

definition maskless_if :: "string \<Rightarrow> int \<Rightarrow> int \<Rightarrow> netif" where
  "maskless_if nm oid d = sample_if nm oid [''10.0.0.6''] d"

definition nodeless :: "netif \<Rightarrow> netif" where
  "nodeless n = n\<lparr>node := None\<rparr>"

definition attached_node :: rj45 where
  "attached_node = (fresh_rj45 ''eth0'')\<lparr>rj_net := Some ''net1'', rj_netif := [0 \<mapsto> Self], rj_ifindex := Some 0\<rparr>"

definition one_index_node :: rj45 where
  "one_index_node =
     fst (snd (RJ45Node_newnetif (quiet_env []) (fresh_rj45 ''eth0'') sample_host None [] None))"

definition two_index_node :: rj45 where
  "two_index_node =
     fst (snd (RJ45Node_newnetif (quiet_env []) one_index_node sample_host None [] (Some 1)))"

section \<open>Properties of PtpNet\<close>

lemma addr_loop_ok:
  "list_all (addr_ok L) as \<Longrightarrow> \<exists>r. addr_loop L as acc = Inr r"
proof (induction as arbitrary: acc)
  case Nil
  then show ?case by simp
next
  case (Cons a as)
  obtain ip sep msk where p: "partition_at CHR ''/'' a = (ip, sep, msk)"
    by (cases "partition_at CHR ''/'' a") auto
  from Cons.prems have ok: "addr_ok L a" and rest: "list_all (addr_ok L) as"
    by simp_all
  from ok p obtain m where m: "int_of_str L msk = Some m"
    by (auto simp: addr_ok_def)
  from ok p obtain ipl where ipl: "inet_pton L (addr_family L a) ip = Some ipl"
    by (auto simp: addr_ok_def)
  show ?case
  proof (cases "is_ipv4_address L ip")
    case True
    with p ipl have "inet_pton L AF_INET ip = Some ipl"
      by (simp add: addr_family_def)
    with True p m Cons.IH [OF rest] show ?thesis by simp
  next
    case False
    with p ipl have "inet_pton L AF_INET6 ip = Some ipl"
      by (simp add: addr_family_def)
    with False p m Cons.IH [OF rest] show ?thesis by simp
  qed
qed

lemma last_option_Cons:
  "last_option (x # xs) = (case last_option xs of None \<Rightarrow> Some x | Some y \<Rightarrow> Some y)"
  by (simp add: last_option_def)

lemma of_family_Cons:
  "of_family L f (a # as) =
     (if addr_family L a = f then a # of_family L f as else of_family L f as)"
  by (simp add: of_family_def)

lemma all_link_data_ok:
  assumes reg: "ptp_netif self = [(i1, if1), (i2, if2)]"
    and ok1: "netif_ok L if1" and ok2: "netif_ok L if2"
  shows "\<exists>a1 a2 n1 n2.
           addr_loop L (addrlist if1) no_ipfields = Inr a1 \<and>
           addr_loop L (addrlist if2) no_ipfields = Inr a2 \<and>
           node if1 = Some n1 \<and> node if2 = Some n2 \<and>
           PtpNet_all_link_data L self flags =
             Inr (forward_link self flags (if getparams if1 \<noteq> getparams if2 then 1 else 0)
                    if1 n1 a1 if2 n2 a2
                  # (if getparams if1 \<noteq> getparams if2 then [reverse_link if1 n1 n2] else []))"
proof -
  from ok1 obtain a1 where a1: "addr_loop L (addrlist if1) no_ipfields = Inr a1"
    using addr_loop_ok [of L "addrlist if1" no_ipfields] by (auto simp: netif_ok_def)
  from ok2 obtain a2 where a2: "addr_loop L (addrlist if2) no_ipfields = Inr a2"
    using addr_loop_ok [of L "addrlist if2" no_ipfields] by (auto simp: netif_ok_def)
  from ok1 obtain n1 where n1: "node if1 = Some n1" by (auto simp: netif_ok_def)
  from ok2 obtain n2 where n2: "node if2 = Some n2" by (auto simp: netif_ok_def)
  have "PtpNet_all_link_data L self flags =
          Inr (forward_link self flags (if getparams if1 \<noteq> getparams if2 then 1 else 0)
                 if1 n1 a1 if2 n2 a2
               # (if getparams if1 \<noteq> getparams if2 then [reverse_link if1 n1 n2] else []))"
    by (simp add: PtpNet_all_link_data_def reg a1 a2 n1 n2 Let_def)
  with a1 a2 n1 n2 show ?thesis by blast
qed

lemma addr_loop_rejects:
  "\<not> list_all (addr_ok L) as \<Longrightarrow> \<exists>e. addr_loop L as acc = Inl e"
proof (induction as arbitrary: acc)
  case Nil
  then show ?case by simp
next
  case (Cons a as)
  obtain ip sep msk where p: "partition_at CHR ''/'' a = (ip, sep, msk)"
    by (cases "partition_at CHR ''/'' a") auto
  show ?case
  proof (cases "addr_ok L a")
    case True
    with Cons.prems have rest: "\<not> list_all (addr_ok L) as" by simp
    from True p obtain m where m: "int_of_str L msk = Some m"
      by (auto simp: addr_ok_def)
    from True p obtain ipl where ipl: "inet_pton L (addr_family L a) ip = Some ipl"
      by (auto simp: addr_ok_def)
    show ?thesis
    proof (cases "is_ipv4_address L ip")
      case True
      with p ipl have "inet_pton L AF_INET ip = Some ipl" by (simp add: addr_family_def)
      with True p m Cons.IH [OF rest] show ?thesis by simp
    next
      case False
      with p ipl have "inet_pton L AF_INET6 ip = Some ipl" by (simp add: addr_family_def)
      with False p m Cons.IH [OF rest] show ?thesis by simp
    qed
  next
    case False
    with p show ?thesis
      by (cases "int_of_str L msk"; cases "is_ipv4_address L ip")
         (auto simp: addr_ok_def addr_family_def split: option.splits)
  qed
qed

lemma all_link_data_raises:
  assumes reg: "ptp_netif self = [(i1, if1), (i2, if2)]"
    and bad: "\<not> (netif_ok L if1 \<and> netif_ok L if2)"
  shows "\<exists>e. PtpNet_all_link_data L self flags = Inl e"
proof (cases "list_all (addr_ok L) (addrlist if1)")
  case False
  from addr_loop_rejects [OF this, of no_ipfields] reg show ?thesis
    by (auto simp: PtpNet_all_link_data_def Let_def)
next
  case ok1: True
  from addr_loop_ok [OF ok1, of no_ipfields]
  obtain a1 where a1: "addr_loop L (addrlist if1) no_ipfields = Inr a1" by blast
  show ?thesis
  proof (cases "list_all (addr_ok L) (addrlist if2)")
    case False
    from addr_loop_rejects [OF this, of no_ipfields] reg a1 show ?thesis
      by (auto simp: PtpNet_all_link_data_def Let_def)
  next
    case ok2: True
    from addr_loop_ok [OF ok2, of no_ipfields]
    obtain a2 where a2: "addr_loop L (addrlist if2) no_ipfields = Inr a2" by blast
    from bad ok1 ok2 have "node if1 = None \<or> node if2 = None"
      by (auto simp: netif_ok_def)
    with reg a1 a2 show ?thesis
      by (auto simp: PtpNet_all_link_data_def Let_def split: option.splits)
  qed
qed

text \<open>
  C1, as amended. \<open>all_link_data(flags)\<close> of a PtpNet returns the empty list whenever
  the number of attached interfaces is not 2. With exactly 2 attached interfaces, each
  owned by a node and holding only addresses whose mask \<open>int\<close> accepts and whose ip
  part \<open>inet_pton\<close> accepts, it returns 1 or 2 link descriptors, and 2 exactly when
  the parameter sets of the two interfaces differ. With exactly 2 attached interfaces
  of which one has no node or holds an address that is not accepted, it raises.
\<close>

theorem PtpNet_all_link_data_count:
  "(length (ptp_netif self) \<noteq> 2 \<longrightarrow> PtpNet_all_link_data L self flags = Inr []) \<and>
   (length (ptp_netif self) = 2 \<and> list_all (netif_ok L) (map snd (ptp_netif self)) \<longrightarrow>
      (\<exists>ls. PtpNet_all_link_data L self flags = Inr ls \<and>
            (length ls = 1 \<or> length ls = 2) \<and>
            (length ls = 2 \<longleftrightarrow>
               getparams (snd (ptp_netif self ! 0)) \<noteq> getparams (snd (ptp_netif self ! 1))))) \<and>
   (length (ptp_netif self) = 2 \<and> \<not> list_all (netif_ok L) (map snd (ptp_netif self)) \<longrightarrow>
      (\<exists>e. PtpNet_all_link_data L self flags = Inl e))"
proof (intro conjI impI)
  assume "length (ptp_netif self) \<noteq> 2"
  then show "PtpNet_all_link_data L self flags = Inr []"
    by (simp add: PtpNet_all_link_data_def)
next
  assume h: "length (ptp_netif self) = 2 \<and> list_all (netif_ok L) (map snd (ptp_netif self))"
  then obtain i1 if1 i2 if2 where reg: "ptp_netif self = [(i1, if1), (i2, if2)]"
    by (cases "ptp_netif self") (auto simp: length_Suc_conv)
  with h have "netif_ok L if1" "netif_ok L if2" by simp_all
  from all_link_data_ok [OF reg this, of flags] reg
  show "\<exists>ls. PtpNet_all_link_data L self flags = Inr ls \<and>
            (length ls = 1 \<or> length ls = 2) \<and>
            (length ls = 2 \<longleftrightarrow>
               getparams (snd (ptp_netif self ! 0)) \<noteq> getparams (snd (ptp_netif self ! 1)))"
    by auto
next
  assume h: "length (ptp_netif self) = 2 \<and> \<not> list_all (netif_ok L) (map snd (ptp_netif self))"
  then obtain i1 if1 i2 if2 where reg: "ptp_netif self = [(i1, if1), (i2, if2)]"
    by (cases "ptp_netif self") (auto simp: length_Suc_conv)
  with h have "\<not> (netif_ok L if1 \<and> netif_ok L if2)" by simp
  from all_link_data_raises [OF reg this]
  show "\<exists>e. PtpNet_all_link_data L self flags = Inl e" .
qed

theorem PtpNet_all_link_data_count_witness:
  "length (ptp_netif (sample_ptp [sample_if1])) \<noteq> 2 \<and>
   PtpNet_all_link_data sample_lib (sample_ptp [sample_if1]) 0 = Inr [] \<and>
   length (ptp_netif (sample_ptp [sample_if1, sample_if2])) = 2 \<and>
   list_all (netif_ok sample_lib) (map snd (ptp_netif (sample_ptp [sample_if1, sample_if2]))) \<and>
   (\<exists>ls. PtpNet_all_link_data sample_lib (sample_ptp [sample_if1, sample_if2]) 0 = Inr ls \<and>
         length ls = 2) \<and>
   length (ptp_netif (sample_ptp [sample_if1, nodeless sample_if2])) = 2 \<and>
   \<not> list_all (netif_ok sample_lib)
       (map snd (ptp_netif (sample_ptp [sample_if1, nodeless sample_if2]))) \<and>
   (\<exists>e. PtpNet_all_link_data sample_lib (sample_ptp [sample_if1, nodeless sample_if2]) 0 = Inl e)"
proof -
  have a: "length (ptp_netif (sample_ptp [sample_if1])) \<noteq> 2"
    by (simp add: sample_ptp_def)
  have b: "length (ptp_netif (sample_ptp [sample_if1, sample_if2])) = 2"
    by (simp add: sample_ptp_def)
  have c: "list_all (netif_ok sample_lib)
             (map snd (ptp_netif (sample_ptp [sample_if1, sample_if2])))"
    by code_simp
  have d: "getparams (snd (ptp_netif (sample_ptp [sample_if1, sample_if2]) ! 0))
             \<noteq> getparams (snd (ptp_netif (sample_ptp [sample_if1, sample_if2]) ! 1))"
    by code_simp
  have e: "length (ptp_netif (sample_ptp [sample_if1, nodeless sample_if2])) = 2"
    by (simp add: sample_ptp_def)
  have f: "\<not> list_all (netif_ok sample_lib)
             (map snd (ptp_netif (sample_ptp [sample_if1, nodeless sample_if2])))"
    by code_simp
  from a b c d e f
    PtpNet_all_link_data_count [of "sample_ptp [sample_if1]" sample_lib 0]
    PtpNet_all_link_data_count [of "sample_ptp [sample_if1, sample_if2]" sample_lib 0]
    PtpNet_all_link_data_count [of "sample_ptp [sample_if1, nodeless sample_if2]" sample_lib 0]
  show ?thesis by blast
qed

text \<open>
  C1 as stated promises 1 or 2 descriptors for every PtpNet with 2 attached
  interfaces. Where one of the two has no node, \<open>if2.node.objid\<close> raises; where an
  address has no mask, \<open>int(mask)\<close> raises on the empty string.
\<close>

theorem PtpNet_all_link_data_count_counterexample:
  "length (ptp_netif (sample_ptp [bare_if ''veth4'' 4 10, nodeless (bare_if ''veth5'' 5 50)])) = 2 \<and>
   PtpNet_all_link_data sample_lib
       (sample_ptp [bare_if ''veth4'' 4 10, nodeless (bare_if ''veth5'' 5 50)]) 0
     = Inl AttributeError \<and>
   length (ptp_netif (sample_ptp [maskless_if ''veth6'' 6 10, bare_if ''veth7'' 7 50])) = 2 \<and>
   PtpNet_all_link_data sample_lib
       (sample_ptp [maskless_if ''veth6'' 6 10, bare_if ''veth7'' 7 50]) 0
     = Inl (ValueError (InvalidLiteral []))"
  by code_simp

lemma addr_loop_last:
  "list_all (addr_ok L) as \<Longrightarrow>
   addr_loop L as acc = Inr
     \<lparr> ip4 = pick (map_option (addr_ip L) (last_option (of_family L AF_INET as))) (ip4 acc),
       ip4_mask = pick (map_option (addr_mask L) (last_option (of_family L AF_INET as))) (ip4_mask acc),
       ip6 = pick (map_option (addr_ip L) (last_option (of_family L AF_INET6 as))) (ip6 acc),
       ip6_mask = pick (map_option (addr_mask L) (last_option (of_family L AF_INET6 as))) (ip6_mask acc) \<rparr>"
proof (induction as arbitrary: acc)
  case Nil
  then show ?case by (simp add: last_option_def of_family_def pick_def)
next
  case (Cons a as)
  obtain ip sep msk where p: "partition_at CHR ''/'' a = (ip, sep, msk)"
    by (cases "partition_at CHR ''/'' a") auto
  from Cons.prems have ok: "addr_ok L a" and rest: "list_all (addr_ok L) as"
    by simp_all
  from ok p obtain m where m: "int_of_str L msk = Some m"
    by (auto simp: addr_ok_def)
  from ok p obtain ipl where ipl: "inet_pton L (addr_family L a) ip = Some ipl"
    by (auto simp: addr_ok_def)
  show ?case
  proof (cases "is_ipv4_address L ip")
    case True
    with p have fam: "addr_family L a = AF_INET" by (simp add: addr_family_def)
    with ipl have "inet_pton L AF_INET ip = Some ipl" by simp
    with True p m fam show ?thesis
      by (simp add: Cons.IH [OF rest] of_family_Cons last_option_Cons pick_def addr_ip_def addr_mask_def
               split: option.splits)
  next
    case False
    with p have fam: "addr_family L a = AF_INET6" by (simp add: addr_family_def)
    with ipl have "inet_pton L AF_INET6 ip = Some ipl" by simp
    with False p m fam show ?thesis
      by (simp add: Cons.IH [OF rest] of_family_Cons last_option_Cons pick_def addr_ip_def addr_mask_def
               split: option.splits)
  qed
qed

lemma addr_loop_fresh:
  assumes "list_all (addr_ok L) as"
  shows "addr_loop L as no_ipfields = Inr
     \<lparr> ip4 = map_option (addr_ip L) (last_option (of_family L AF_INET as)),
       ip4_mask = map_option (addr_mask L) (last_option (of_family L AF_INET as)),
       ip6 = map_option (addr_ip L) (last_option (of_family L AF_INET6 as)),
       ip6_mask = map_option (addr_mask L) (last_option (of_family L AF_INET6 as)) \<rparr>"
  using addr_loop_last [OF assms, of no_ipfields]
  by (simp add: no_ipfields_def pick_def split: option.splits)

text \<open>
  C2, as amended. A PtpNet with exactly 2 attached interfaces whose parameter sets
  differ, each interface owned by a node and holding only addresses whose mask \<open>int\<close>
  accepts and whose ip part \<open>inet_pton\<close> accepts, returns exactly two descriptors. The
  forward one carries the parameter values of interface 1 and \<open>unidirectional = 1\<close>.
  The reverse one has the node ids and the interface ids swapped, carries the same
  parameter values of interface 1, has \<open>unidirectional = 1\<close> and \<open>message_type = 0\<close>,
  and none of its link-type, mac and address fields is set.
\<close>

theorem PtpNet_unidirectional_pair:
  assumes reg: "ptp_netif self = [(i1, if1), (i2, if2)]"
    and ok1: "netif_ok L if1" and ok2: "netif_ok L if2"
    and diff: "getparams if1 \<noteq> getparams if2"
  shows "\<exists>fwd rv.
           PtpNet_all_link_data L self flags = Inr [fwd, rv] \<and>
           node1_id fwd = map_option objid (node if1) \<and>
           node2_id fwd = map_option objid (node if2) \<and>
           unidirectional fwd = Some 1 \<and>
           delay fwd = getparam if1 ''delay'' \<and>
           bandwidth fwd = getparam if1 ''bw'' \<and>
           dup fwd = getparam if1 ''duplicate'' \<and>
           jitter fwd = getparam if1 ''jitter'' \<and>
           node1_id rv = node2_id fwd \<and>
           node2_id rv = node1_id fwd \<and>
           interface1_id rv = interface2_id fwd \<and>
           interface2_id rv = interface1_id fwd \<and>
           delay rv = getparam if1 ''delay'' \<and>
           bandwidth rv = getparam if1 ''bw'' \<and>
           dup rv = getparam if1 ''duplicate'' \<and>
           jitter rv = getparam if1 ''jitter'' \<and>
           unidirectional rv = Some 1 \<and>
           message_type rv = Some 0 \<and>
           link_type rv = None \<and>
           interface1_mac rv = None \<and> interface2_mac rv = None \<and>
           interface1_ip4 rv = None \<and> interface1_ip4_mask rv = None \<and>
           interface1_ip6 rv = None \<and> interface1_ip6_mask rv = None \<and>
           interface2_ip4 rv = None \<and> interface2_ip4_mask rv = None \<and>
           interface2_ip6 rv = None \<and> interface2_ip6_mask rv = None"
proof -
  from all_link_data_ok [OF reg ok1 ok2, of flags] diff
  obtain a1 a2 n1 n2 where n: "node if1 = Some n1" "node if2 = Some n2"
    and r: "PtpNet_all_link_data L self flags =
              Inr [forward_link self flags 1 if1 n1 a1 if2 n2 a2, reverse_link if1 n1 n2]"
    by auto
  show ?thesis
    unfolding r
    apply (rule exI [of _ "forward_link self flags 1 if1 n1 a1 if2 n2 a2"])
    apply (rule exI [of _ "reverse_link if1 n1 n2"])
    apply (simp add: n forward_link_def reverse_link_def LinkData_defaults_def)
    done
qed

theorem PtpNet_unidirectional_pair_witness:
  "ptp_netif (sample_ptp [sample_if1, sample_if2]) = [(0, sample_if1), (1, sample_if2)] \<and>
   netif_ok sample_lib sample_if1 \<and> netif_ok sample_lib sample_if2 \<and>
   getparams sample_if1 \<noteq> getparams sample_if2 \<and>
   (\<exists>fwd rv. PtpNet_all_link_data sample_lib (sample_ptp [sample_if1, sample_if2]) 5 = Inr [fwd, rv] \<and>
      delay fwd = Some 10 \<and> unidirectional fwd = Some 1 \<and>
      delay rv = Some 10 \<and> unidirectional rv = Some 1 \<and>
      message_type rv = Some 0 \<and> interface1_ip4 rv = None)"
proof -
  have reg: "ptp_netif (sample_ptp [sample_if1, sample_if2]) = [(0, sample_if1), (1, sample_if2)]"
    by (simp add: sample_ptp_def upt_rec)
  have ok1: "netif_ok sample_lib sample_if1" by code_simp
  have ok2: "netif_ok sample_lib sample_if2" by code_simp
  have diff: "getparams sample_if1 \<noteq> getparams sample_if2" by code_simp
  have d: "getparam sample_if1 ''delay'' = Some 10" by code_simp
  from PtpNet_unidirectional_pair [OF reg ok1 ok2 diff, of 5] d
  have "\<exists>fwd rv. PtpNet_all_link_data sample_lib (sample_ptp [sample_if1, sample_if2]) 5 = Inr [fwd, rv] \<and>
      delay fwd = Some 10 \<and> unidirectional fwd = Some 1 \<and>
      delay rv = Some 10 \<and> unidirectional rv = Some 1 \<and>
      message_type rv = Some 0 \<and> interface1_ip4 rv = None"
    by (elim exE conjE) (intro exI conjI, assumption, simp_all)
  with reg ok1 ok2 diff show ?thesis by blast
qed

text \<open>
  C2 as stated promises the two descriptors for every PtpNet with 2 attached interfaces
  whose parameter sets differ. With interface 1 owned by no node, or holding an address
  without a mask, nothing is returned: \<open>all_link_data\<close> raises.
\<close>

theorem PtpNet_unidirectional_pair_counterexample:
  "ptp_netif (sample_ptp [nodeless (bare_if ''veth4'' 4 10), bare_if ''veth5'' 5 50])
     = [(0, nodeless (bare_if ''veth4'' 4 10)), (1, bare_if ''veth5'' 5 50)] \<and>
   getparams (nodeless (bare_if ''veth4'' 4 10)) \<noteq> getparams (bare_if ''veth5'' 5 50) \<and>
   PtpNet_all_link_data sample_lib
       (sample_ptp [nodeless (bare_if ''veth4'' 4 10), bare_if ''veth5'' 5 50]) 3
     = Inl AttributeError \<and>
   ptp_netif (sample_ptp [bare_if ''veth4'' 4 10, maskless_if ''veth6'' 6 50])
     = [(0, bare_if ''veth4'' 4 10), (1, maskless_if ''veth6'' 6 50)] \<and>
   getparams (bare_if ''veth4'' 4 10) \<noteq> getparams (maskless_if ''veth6'' 6 50) \<and>
   PtpNet_all_link_data sample_lib
       (sample_ptp [bare_if ''veth4'' 4 10, maskless_if ''veth6'' 6 50]) 3
     = Inl (ValueError (InvalidLiteral []))"
  by code_simp

text \<open>
  C3, as amended. A PtpNet with exactly 2 attached interfaces whose parameter sets are
  equal, each interface owned by a node and holding only addresses whose mask \<open>int\<close>
  accepts and whose ip part \<open>inet_pton\<close> accepts, returns exactly one descriptor, and
  its unidirectional flag is 0.
\<close>

theorem PtpNet_symmetric_single:
  assumes reg: "ptp_netif self = [(i1, if1), (i2, if2)]"
    and ok1: "netif_ok L if1" and ok2: "netif_ok L if2"
    and same: "getparams if1 = getparams if2"
  shows "\<exists>d. PtpNet_all_link_data L self flags = Inr [d] \<and> unidirectional d = Some 0"
proof -
  from all_link_data_ok [OF reg ok1 ok2, of flags] same
  obtain a1 a2 n1 n2 where
    r: "PtpNet_all_link_data L self flags = Inr [forward_link self flags 0 if1 n1 a1 if2 n2 a2]"
    by auto
  show ?thesis unfolding r by (simp add: forward_link_def)
qed

theorem PtpNet_symmetric_single_witness:
  "ptp_netif (sample_ptp [sample_if1, sample_if3]) = [(0, sample_if1), (1, sample_if3)] \<and>
   netif_ok sample_lib sample_if1 \<and> netif_ok sample_lib sample_if3 \<and>
   getparams sample_if1 = getparams sample_if3 \<and>
   (\<exists>d. PtpNet_all_link_data sample_lib (sample_ptp [sample_if1, sample_if3]) 5 = Inr [d] \<and>
        unidirectional d = Some 0)"
proof -
  have reg: "ptp_netif (sample_ptp [sample_if1, sample_if3]) = [(0, sample_if1), (1, sample_if3)]"
    by (simp add: sample_ptp_def upt_rec)
  have ok1: "netif_ok sample_lib sample_if1" by code_simp
  have ok3: "netif_ok sample_lib sample_if3" by code_simp
  have same: "getparams sample_if1 = getparams sample_if3" by code_simp
  from reg ok1 ok3 same PtpNet_symmetric_single [OF reg ok1 ok3 same, of 5]
  show ?thesis by blast
qed

text \<open>
  C3 as stated promises the single descriptor for every PtpNet with 2 attached
  interfaces whose parameter sets are equal. With interface 2 owned by no node, or
  interface 1 holding an address without a mask, nothing is returned:
  \<open>all_link_data\<close> raises.
\<close>

theorem PtpNet_symmetric_single_counterexample:
  "ptp_netif (sample_ptp [sample_if1, nodeless_if]) = [(0, sample_if1), (1, nodeless_if)] \<and>
   getparams sample_if1 = getparams nodeless_if \<and>
   PtpNet_all_link_data sample_lib (sample_ptp [sample_if1, nodeless_if]) 3
     = Inl AttributeError \<and>
   ptp_netif (sample_ptp [maskless_if ''veth6'' 6 10, sample_if3])
     = [(0, maskless_if ''veth6'' 6 10), (1, sample_if3)] \<and>
   getparams (maskless_if ''veth6'' 6 10) = getparams sample_if3 \<and>
   PtpNet_all_link_data sample_lib (sample_ptp [maskless_if ''veth6'' 6 10, sample_if3]) 3
     = Inl (ValueError (InvalidLiteral []))"
  by code_simp

text \<open>
  C4. \<open>attach\<close> on a PtpNet that holds 2 interfaces (or more) raises the capacity error
  and leaves the network, and so its attached interfaces, as it was. With fewer than 2
  it is the attach of the base, which succeeds and enters the interface in the registry.
\<close>

theorem PtpNet_attach_capacity:
  "(2 \<le> length (ptp_netif self) \<longrightarrow>
      PtpNet_attach self n = (Inl (ValueError PtpAtMost2), self)) \<and>
   (length (ptp_netif self) < 2 \<longrightarrow>
      PtpNet_attach self n = LxBrNet_attach self n \<and>
      fst (PtpNet_attach self n) = Inr () \<and>
      map snd (ptp_netif (snd (PtpNet_attach self n))) = map snd (ptp_netif self) @ [n])"
  by (simp add: PtpNet_attach_def LxBrNet_attach_def)

theorem PtpNet_attach_capacity_witness:
  "2 \<le> length (ptp_netif (sample_ptp [sample_if1, sample_if2])) \<and>
   PtpNet_attach (sample_ptp [sample_if1, sample_if2]) sample_if3 =
     (Inl (ValueError PtpAtMost2), sample_ptp [sample_if1, sample_if2]) \<and>
   length (ptp_netif (sample_ptp [sample_if1])) < 2 \<and>
   fst (PtpNet_attach (sample_ptp [sample_if1]) sample_if2) = Inr () \<and>
   map snd (ptp_netif (snd (PtpNet_attach (sample_ptp [sample_if1]) sample_if2))) =
     [sample_if1, sample_if2]"
proof -
  have a: "2 \<le> length (ptp_netif (sample_ptp [sample_if1, sample_if2]))"
    by (simp add: sample_ptp_def)
  have b: "length (ptp_netif (sample_ptp [sample_if1])) < 2"
    by (simp add: sample_ptp_def)
  have c: "map snd (ptp_netif (sample_ptp [sample_if1])) = [sample_if1]"
    by (simp add: sample_ptp_def)
  from a PtpNet_attach_capacity [of "sample_ptp [sample_if1, sample_if2]" sample_if3]
  have d: "PtpNet_attach (sample_ptp [sample_if1, sample_if2]) sample_if3 =
             (Inl (ValueError PtpAtMost2), sample_ptp [sample_if1, sample_if2])"
    by blast
  from b PtpNet_attach_capacity [of "sample_ptp [sample_if1]" sample_if2]
  have e: "fst (PtpNet_attach (sample_ptp [sample_if1]) sample_if2) = Inr ()"
    and f: "map snd (ptp_netif (snd (PtpNet_attach (sample_ptp [sample_if1]) sample_if2))) =
              map snd (ptp_netif (sample_ptp [sample_if1])) @ [sample_if2]"
    by blast+
  from f c
  have g: "map snd (ptp_netif (snd (PtpNet_attach (sample_ptp [sample_if1]) sample_if2))) =
             [sample_if1, sample_if2]"
    by simp
  from a b d e g show ?thesis by blast
qed

text \<open>
  C10. Of several addresses of one family (IPv4 or IPv6) in the address list of an
  attached interface, the descriptor reports the address and the mask of the last one in
  list order: each address field of the first descriptor is taken from the last address
  of its family (\<open>None\<close> when the list has none), so the earlier ones do not appear;
  a second descriptor has no address fields at all.
\<close>

theorem PtpNet_last_address_wins:
  assumes reg: "ptp_netif self = [(i1, if1), (i2, if2)]"
    and ok1: "netif_ok L if1" and ok2: "netif_ok L if2"
  shows "\<exists>d rest.
           PtpNet_all_link_data L self flags = Inr (d # rest) \<and>
           interface1_ip4 d = map_option (addr_ip L) (last_option (of_family L AF_INET (addrlist if1))) \<and>
           interface1_ip4_mask d = map_option (addr_mask L) (last_option (of_family L AF_INET (addrlist if1))) \<and>
           interface1_ip6 d = map_option (addr_ip L) (last_option (of_family L AF_INET6 (addrlist if1))) \<and>
           interface1_ip6_mask d = map_option (addr_mask L) (last_option (of_family L AF_INET6 (addrlist if1))) \<and>
           interface2_ip4 d = map_option (addr_ip L) (last_option (of_family L AF_INET (addrlist if2))) \<and>
           interface2_ip4_mask d = map_option (addr_mask L) (last_option (of_family L AF_INET (addrlist if2))) \<and>
           interface2_ip6 d = map_option (addr_ip L) (last_option (of_family L AF_INET6 (addrlist if2))) \<and>
           interface2_ip6_mask d = map_option (addr_mask L) (last_option (of_family L AF_INET6 (addrlist if2))) \<and>
           (\<forall>r \<in> set rest. interface1_ip4 r = None \<and> interface1_ip6 r = None \<and>
                             interface2_ip4 r = None \<and> interface2_ip6 r = None)"
proof -
  from ok1 have l1: "list_all (addr_ok L) (addrlist if1)" by (simp add: netif_ok_def)
  from ok2 have l2: "list_all (addr_ok L) (addrlist if2)" by (simp add: netif_ok_def)
  from all_link_data_ok [OF reg ok1 ok2, of flags]
  obtain a1 a2 n1 n2 u rest where
    a: "addr_loop L (addrlist if1) no_ipfields = Inr a1"
       "addr_loop L (addrlist if2) no_ipfields = Inr a2"
    and r: "PtpNet_all_link_data L self flags = Inr (forward_link self flags u if1 n1 a1 if2 n2 a2 # rest)"
    and rest: "rest = [] \<or> rest = [reverse_link if1 n1 n2]"
    by (auto split: if_splits)
  from a addr_loop_fresh [OF l1] addr_loop_fresh [OF l2]
  have f: "a1 = \<lparr> ip4 = map_option (addr_ip L) (last_option (of_family L AF_INET (addrlist if1))),
       ip4_mask = map_option (addr_mask L) (last_option (of_family L AF_INET (addrlist if1))),
       ip6 = map_option (addr_ip L) (last_option (of_family L AF_INET6 (addrlist if1))),
       ip6_mask = map_option (addr_mask L) (last_option (of_family L AF_INET6 (addrlist if1))) \<rparr>"
    "a2 = \<lparr> ip4 = map_option (addr_ip L) (last_option (of_family L AF_INET (addrlist if2))),
       ip4_mask = map_option (addr_mask L) (last_option (of_family L AF_INET (addrlist if2))),
       ip6 = map_option (addr_ip L) (last_option (of_family L AF_INET6 (addrlist if2))),
       ip6_mask = map_option (addr_mask L) (last_option (of_family L AF_INET6 (addrlist if2))) \<rparr>"
    by simp_all
  from rest have none: "\<forall>r \<in> set rest. interface1_ip4 r = None \<and> interface1_ip6 r = None \<and>
                             interface2_ip4 r = None \<and> interface2_ip6 r = None"
    by (auto simp: reverse_link_def LinkData_defaults_def)
  show ?thesis
    unfolding r
    apply (rule exI [of _ "forward_link self flags u if1 n1 a1 if2 n2 a2"])
    apply (rule exI [of _ rest])
    using none apply (simp add: forward_link_def f)
    done
qed


theorem PtpNet_last_address_wins_witness:
  "ptp_netif (sample_ptp [sample_if1, sample_if3]) = [(0, sample_if1), (1, sample_if3)] \<and>
   netif_ok sample_lib sample_if1 \<and> netif_ok sample_lib sample_if3 \<and>
   of_family sample_lib AF_INET (addrlist sample_if1) = [''10.0.0.1/24'', ''10.0.0.9/16''] \<and>
   of_family sample_lib AF_INET6 (addrlist sample_if3) = [''2001::3/64'', ''2001::4/48''] \<and>
   (\<exists>d rest. PtpNet_all_link_data sample_lib (sample_ptp [sample_if1, sample_if3]) 5 = Inr (d # rest) \<and>
      interface1_ip4 d = Some (IpAddress AF_INET ''10.0.0.9'') \<and>
      interface1_ip4_mask d = Some 16 \<and>
      interface2_ip6 d = Some (IpAddress AF_INET6 ''2001::4'') \<and>
      interface2_ip6_mask d = Some 48)"
proof -
  have reg: "ptp_netif (sample_ptp [sample_if1, sample_if3]) = [(0, sample_if1), (1, sample_if3)]"
    by (simp add: sample_ptp_def upt_rec)
  have ok1: "netif_ok sample_lib sample_if1" by code_simp
  have ok3: "netif_ok sample_lib sample_if3" by code_simp
  have f4: "of_family sample_lib AF_INET (addrlist sample_if1) = [''10.0.0.1/24'', ''10.0.0.9/16'']"
    by code_simp
  have f6: "of_family sample_lib AF_INET6 (addrlist sample_if3) = [''2001::3/64'', ''2001::4/48'']"
    by code_simp
  have v: "map_option (addr_ip sample_lib) (last_option [''10.0.0.1/24'', ''10.0.0.9/16''])
             = Some (IpAddress AF_INET ''10.0.0.9'')"
      "map_option (addr_mask sample_lib) (last_option [''10.0.0.1/24'', ''10.0.0.9/16'']) = Some 16"
      "map_option (addr_ip sample_lib) (last_option [''2001::3/64'', ''2001::4/48''])
             = Some (IpAddress AF_INET6 ''2001::4'')"
      "map_option (addr_mask sample_lib) (last_option [''2001::3/64'', ''2001::4/48'']) = Some 48"
    by code_simp+
  from PtpNet_last_address_wins [OF reg ok1 ok3, of 5]
  have "\<exists>d rest. PtpNet_all_link_data sample_lib (sample_ptp [sample_if1, sample_if3]) 5 = Inr (d # rest) \<and>
      interface1_ip4 d = Some (IpAddress AF_INET ''10.0.0.9'') \<and>
      interface1_ip4_mask d = Some 16 \<and>
      interface2_ip6 d = Some (IpAddress AF_INET6 ''2001::4'') \<and>
      interface2_ip6_mask d = Some 48"
    unfolding f4 f6 v
    by (elim exE conjE) (intro exI conjI, assumption+)
  with reg ok1 ok3 f4 f6 show ?thesis by blast
qed

section \<open>Properties of CtrlNet\<close>

lemma scan_bridges_hit:
  "line \<in> set ls \<Longrightarrow> split_on CHR ''.'' (hd (split_on CHR 0x09 line)) = [''b'', oid, sfx]
     \<Longrightarrow> scan_bridges oid ls"
  by (induction ls) (auto simp: Let_def)

text \<open>
  C5, as amended. If a line after the header line of the bridge listing has a first
  tab-separated column with exactly three dot-separated fields, the first being \<open>b\<close>
  and the second the id of this network, then \<open>startup()\<close> returns without raising and
  performs no step: no bridge creation by the base, no address assignment, no updown
  script, no join of the server interface.
\<close>

theorem CtrlNet_startup_stale_bridge:
  assumes "line \<in> set (drop 1 (split_on CHR 0x0A (snd (cmdresult env BrctlShow))))"
    and "split_on CHR ''.'' (hd (split_on CHR 0x09 line)) = [''b'', ctrl_objid self, sfx]"
  shows "CtrlNet_startup env self = (Inr (), [])"
proof -
  from assms have "detectoldbridge env self"
    by (auto simp: detectoldbridge_def split: prod.splits intro: scan_bridges_hit)
  then show ?thesis by (simp add: CtrlNet_startup_def)
qed

theorem CtrlNet_startup_stale_bridge_witness:
  "stale_line \<in> set (drop 1 (split_on CHR 0x0A
       (snd (cmdresult (sample_ctrl_env (unlines [brctl_header, stale_line])) BrctlShow)))) \<and>
   split_on CHR ''.'' (hd (split_on CHR 0x09 stale_line)) = [''b'', ctrl_objid sample_ctrl, ''1a''] \<and>
   CtrlNet_startup (sample_ctrl_env (unlines [brctl_header, stale_line])) sample_ctrl = (Inr (), [])"
proof -
  have a: "stale_line \<in> set (drop 1 (split_on CHR 0x0A
       (snd (cmdresult (sample_ctrl_env (unlines [brctl_header, stale_line])) BrctlShow))))"
    by code_simp
  have b: "split_on CHR ''.'' (hd (split_on CHR 0x09 stale_line)) = [''b'', ctrl_objid sample_ctrl, ''1a'']"
    by code_simp
  from a b CtrlNet_startup_stale_bridge [OF a b] show ?thesis by blast
qed

text \<open>
  The claim as stated asks only for a name of the form \<open>prefix.objid.suffix\<close>. A bridge
  \<open>x.ctrlnet.1a\<close> has that form for the network \<open>ctrlnet\<close>, and with it in the
  listing \<open>startup()\<close> goes on to create and configure the bridge.
\<close>

theorem CtrlNet_startup_foreign_prefix_counterexample:
  "foreign_line \<in> set (drop 1 (split_on CHR 0x0A
       (snd (cmdresult (sample_ctrl_env (unlines [brctl_header, foreign_line])) BrctlShow)))) \<and>
   split_on CHR ''.'' (hd (split_on CHR 0x09 foreign_line)) = [''x'', ctrl_objid sample_ctrl, ''1a''] \<and>
   CtrlNet_startup (sample_ctrl_env (unlines [brctl_header, foreign_line])) sample_ctrl =
     (Inr (), [BaseStartup, AddrConfig [''172.16.0.254/24''],
               Ran (BrctlAddif ''b.ctrlnet.2f'' ''eth1''), Ran (LinkSet ''eth1'' True)])"
  by code_simp

section \<open>Properties of WlanNode\<close>

lemma install_callback_eq:
  "install_callback cb ns =
     (map (\<lambda>n. n\<lparr>poshook := Some cb\<rparr>) ns,
      map (\<lambda>n. Invoked cb (ifname n) (position (the (node n)))) (filter (\<lambda>n. node n \<noteq> None) ns))"
  by (induction ns) (auto simp: Let_def split: option.splits)

text \<open>
  C8, as amended. \<open>updatemodel(name, values)\<close> changes nothing when no wireless model
  is bound or the bound model has another name. With the matching name, the wireless
  configuration kind and an update the model accepts: if the model has a position
  callback, the callback becomes the position hook of every attached interface and is
  called once, in the order of the interfaces, for each interface that has a node, with
  the position of that node; if the model has no position callback, no hook is changed
  and nothing is called; in both cases the link parameters are applied afterwards.
\<close>

theorem WlanNode_updatemodel_cases:
  "(wlan_model self = None \<or> (\<exists>b. wlan_model self = Some b \<and> model_name b \<noteq> name) \<longrightarrow>
      WlanNode_updatemodel env self name vals = self) \<and>
   (wlan_model self = Some m \<and> model_name m = name \<and> config_type m = WIRELESS env \<and>
    updateconfig env m vals = (True, m') \<longrightarrow>
      WlanNode_updatemodel env self name vals =
        (case position_callback m' of
           Some cb \<Rightarrow>
             self\<lparr> wlan_model := Some m',
                   wlan_netifs := map (\<lambda>n. n\<lparr>poshook := Some cb\<rparr>) (wlan_netifs self),
                   wlan_events := wlan_events self
                      @ map (\<lambda>n. Invoked cb (ifname n) (position (the (node n))))
                            (filter (\<lambda>n. node n \<noteq> None) (wlan_netifs self))
                      @ [SetLinkParams (model_name m')] \<rparr>
         | None \<Rightarrow>
             self\<lparr> wlan_model := Some m',
                   wlan_events := wlan_events self @ [SetLinkParams (model_name m')] \<rparr>))"
  by (auto simp: WlanNode_updatemodel_def install_callback_eq Let_def split: option.splits)

theorem WlanNode_updatemodel_cases_witness:
  "wlan_model (sample_wlan (Some (ModelCallback ''basic_range'')) [sample_if1, nodeless_if])
     = Some (sample_model (Some (ModelCallback ''basic_range''))) \<and>
   model_name (sample_model (Some (ModelCallback ''basic_range''))) \<noteq> ''emane'' \<and>
   WlanNode_updatemodel sample_wlan_env
       (sample_wlan (Some (ModelCallback ''basic_range'')) [sample_if1, nodeless_if])
       ''emane'' [''range=100'']
     = sample_wlan (Some (ModelCallback ''basic_range'')) [sample_if1, nodeless_if] \<and>
   model_name (sample_model (Some (ModelCallback ''basic_range''))) = ''basic_range'' \<and>
   config_type (sample_model (Some (ModelCallback ''basic_range''))) = WIRELESS sample_wlan_env \<and>
   updateconfig sample_wlan_env (sample_model (Some (ModelCallback ''basic_range''))) [''range=100'']
     = (True, sample_model (Some (ModelCallback ''basic_range''))) \<and>
   map poshook (wlan_netifs (WlanNode_updatemodel sample_wlan_env
       (sample_wlan (Some (ModelCallback ''basic_range'')) [sample_if1, nodeless_if])
       ''basic_range'' [''range=100'']))
     = [Some (ModelCallback ''basic_range''), Some (ModelCallback ''basic_range'')] \<and>
   wlan_events (WlanNode_updatemodel sample_wlan_env
       (sample_wlan (Some (ModelCallback ''basic_range'')) [sample_if1, nodeless_if])
       ''basic_range'' [''range=100''])
     = [Invoked (ModelCallback ''basic_range'') ''veth1'' (0, 0, 0), SetLinkParams ''basic_range'']"
proof -
  let ?cb = "ModelCallback ''basic_range''"
  let ?W = "sample_wlan (Some ?cb) [sample_if1, nodeless_if]"
  let ?M = "sample_model (Some ?cb)"
  have a: "wlan_model ?W = Some ?M" by (simp add: sample_wlan_def)
  have b: "model_name ?M \<noteq> ''emane''" by (simp add: sample_model_def)
  have c: "model_name ?M = ''basic_range''" by (simp add: sample_model_def)
  have d: "config_type ?M = WIRELESS sample_wlan_env"
    by (simp add: sample_model_def sample_wlan_env_def)
  have e: "updateconfig sample_wlan_env ?M [''range=100''] = (True, ?M)"
    by (simp add: sample_wlan_env_def)
  have cb: "position_callback ?M = Some ?cb" by (simp add: sample_model_def)
  have ifs: "wlan_netifs ?W = [sample_if1, nodeless_if]" "wlan_events ?W = []"
    by (simp_all add: sample_wlan_def)
  have nd: "node sample_if1 = Some \<lparr> objid = 1, node_ifindex = Some 0, position = (0, 0, 0) \<rparr>"
    "node nodeless_if = None" "ifname sample_if1 = ''veth1''"
    by (simp_all add: sample_if1_def sample_if_def nodeless_if_def)
  from a b WlanNode_updatemodel_cases [where self = ?W and env = sample_wlan_env and name = "''emane''"
         and vals = "[''range=100'']" and m = ?M and m' = ?M]
  have f: "WlanNode_updatemodel sample_wlan_env ?W ''emane'' [''range=100''] = ?W"
    by blast
  from a c d e WlanNode_updatemodel_cases [where self = ?W and env = sample_wlan_env and name = "''basic_range''"
         and vals = "[''range=100'']" and m = ?M and m' = ?M]
  have g: "WlanNode_updatemodel sample_wlan_env ?W ''basic_range'' [''range=100''] =
     ?W\<lparr> wlan_model := Some ?M,
          wlan_netifs := map (\<lambda>n. n\<lparr>poshook := Some ?cb\<rparr>) (wlan_netifs ?W),
          wlan_events := wlan_events ?W
             @ map (\<lambda>n. Invoked ?cb (ifname n) (position (the (node n))))
                   (filter (\<lambda>n. node n \<noteq> None) (wlan_netifs ?W))
             @ [SetLinkParams (model_name ?M)] \<rparr>"
    by (simp add: cb)
  have h: "map poshook (wlan_netifs (WlanNode_updatemodel sample_wlan_env ?W ''basic_range'' [''range=100'']))
     = [Some ?cb, Some ?cb]"
    unfolding g by (simp add: ifs)
  have i: "wlan_events (WlanNode_updatemodel sample_wlan_env ?W ''basic_range'' [''range=100''])
     = [Invoked ?cb ''veth1'' (0, 0, 0), SetLinkParams ''basic_range'']"
    unfolding g by (simp add: ifs nd c)
  from a b c d e f h i show ?thesis by blast
qed

text \<open>
  The claim as stated gives every attached interface a call of the callback. An
  interface without a node (\<open>veth9\<close>) gets the hook and no call; and under a model
  without a position callback no hook is installed and no call is made.
\<close>

theorem WlanNode_updatemodel_guards_counterexample:
  "wlan_model (sample_wlan (Some (ModelCallback ''basic_range'')) [sample_if1, nodeless_if])
     = Some (sample_model (Some (ModelCallback ''basic_range''))) \<and>
   model_name (sample_model (Some (ModelCallback ''basic_range''))) = ''basic_range'' \<and>
   updateconfig sample_wlan_env (sample_model (Some (ModelCallback ''basic_range''))) [''range=100'']
     = (True, sample_model (Some (ModelCallback ''basic_range''))) \<and>
   ifname nodeless_if = ''veth9'' \<and>
   wlan_events (WlanNode_updatemodel sample_wlan_env
       (sample_wlan (Some (ModelCallback ''basic_range'')) [sample_if1, nodeless_if])
       ''basic_range'' [''range=100''])
     = [Invoked (ModelCallback ''basic_range'') ''veth1'' (0, 0, 0), SetLinkParams ''basic_range''] \<and>
   wlan_model (sample_wlan None [sample_if1]) = Some (sample_model None) \<and>
   model_name (sample_model None) = ''basic_range'' \<and>
   updateconfig sample_wlan_env (sample_model None) [''range=100''] = (True, sample_model None) \<and>
   map poshook (wlan_netifs (WlanNode_updatemodel sample_wlan_env
       (sample_wlan None [sample_if1]) ''basic_range'' [''range=100''])) = [None] \<and>
   wlan_events (WlanNode_updatemodel sample_wlan_env
       (sample_wlan None [sample_if1]) ''basic_range'' [''range=100''])
     = [SetLinkParams ''basic_range'']"
  by code_simp

section \<open>Properties of RJ45Node\<close>

lemma addaddr_frame:
  "RJ45Node_addaddr env self h a = (r, s, h') \<Longrightarrow>
     rj_netif s = rj_netif self \<and> rj_ifindex s = rj_ifindex self \<and> rj_net s = rj_net self \<and>
     rj_up s = rj_up self \<and> rj_name s = rj_name self"
  by (auto simp: RJ45Node_addaddr_def split: if_splits prod.splits sum.splits)

lemma addaddrs_frame:
  "addaddrs env self h as = (r, s, h') \<Longrightarrow>
     rj_netif s = rj_netif self \<and> rj_ifindex s = rj_ifindex self \<and> rj_net s = rj_net self \<and>
     rj_up s = rj_up self \<and> rj_name s = rj_name self"
proof (induction as arbitrary: self h)
  case Nil
  then show ?case by simp
next
  case (Cons a as)
  obtain r1 s1 h1 where st: "RJ45Node_addaddr env self h a = (r1, s1, h1)"
    by (cases "RJ45Node_addaddr env self h a") auto
  show ?case
  proof (cases r1)
    case (Inl e)
    with Cons.prems st addaddr_frame [OF st] show ?thesis by simp
  next
    case (Inr u)
    with Cons.prems st have "addaddrs env s1 h1 as = (r, s, h')" by simp
    from Cons.IH [OF this] addaddr_frame [OF st] show ?thesis by simp
  qed
qed







lemma save_lines_frame:
  "save_lines dev ls self = (r, s) \<Longrightarrow>
     rj_name s = rj_name self \<and> rj_localname s = rj_localname self \<and> rj_up s = rj_up self \<and>
     rj_ifindex s = rj_ifindex self \<and> rj_net s = rj_net self \<and> rj_netif s = rj_netif self \<and>
     rj_addrlist s = rj_addrlist self"
  by (induction dev ls self rule: save_lines.induct) (auto simp: Let_def split: if_splits)

lemma savestate_frame:
  "savestate env self h = (r, s) \<Longrightarrow>
     rj_name s = rj_name self \<and> rj_localname s = rj_localname self \<and> rj_up s = rj_up self \<and>
     rj_ifindex s = rj_ifindex self \<and> rj_net s = rj_net self \<and> rj_netif s = rj_netif self \<and>
     rj_addrlist s = rj_addrlist self"
  by (auto simp: savestate_def Let_def split: popen_result.splits if_splits dest: save_lines_frame)

lemma mutecall_qdisc: "mutecall env (QdiscDel dev) h = h"
  by (simp add: mutecall_def)

lemma all_succeed_append:
  "all_succeed env (xs @ ys) h =
     (all_succeed env xs h \<and> all_succeed env ys (fold host_effect xs h))"
  by (induction xs arbitrary: h) auto

lemma fold_addr_adds:
  "fold host_effect (map (\<lambda>p. AddrAdd (fst p) (snd p) dev) addrs) h =
     h(dev := (h dev)\<lparr>nic_addrs := nic_addrs (h dev) @ addrs\<rparr>)"
proof (induction addrs arbitrary: h)
  case Nil
  show ?case by simp
next
  case (Cons a addrs)
  show ?case by (auto simp: Cons.IH fun_eq_iff)
qed

lemma restore_addrs_succeed:
  "all_succeed env (map (\<lambda>p. AddrAdd (fst p) (snd p) dev) addrs) h \<Longrightarrow>
   restore_addrs env dev addrs h =
     (Inr (), fold host_effect (map (\<lambda>p. AddrAdd (fst p) (snd p) dev) addrs) h)"
proof (induction addrs arbitrary: h)
  case Nil
  then show ?case by simp
next
  case (Cons a addrs)
  obtain x b where a: "a = (x, b)" by (cases a) auto
  from Cons show ?case
    by (cases b) (auto simp: a check_call_def)
qed

text \<open>
  C7, as amended. Let \<open>savestate\<close> capture the state of the host interface: its up
  flag and its addresses other than the link-local ones. If each command that
  \<open>startup\<close> and \<open>shutdown\<close> hand to \<open>check_call\<close> succeeds (\<open>ip link set up\<close>,
  \<open>ip link set down\<close>, \<open>ip addr flush\<close>, one \<open>ip addr add\<close> for each captured
  address, and \<open>ip link set up\<close> again if the interface was up; the best-effort
  \<open>tc qdisc del\<close> may fail), then \<open>startup\<close> followed by \<open>shutdown\<close> returns normally
  and restores that state: \<open>restorestate\<close> adds every captured address again after
  the flush and brings the interface up if it was up, so that the up flag and the
  addresses other than the link-local ones are what they were before \<open>startup\<close>; no
  other device changes.
\<close>

theorem RJ45Node_startup_shutdown_restores:
  assumes sv: "savestate env self h0 = (Inr (), s)"
    and cap_up: "old_up s = nic_up (h0 (rj_localname self))"
    and cap_addrs: "old_addrs s = filter (\<lambda>a. \<not> link_local a) (nic_addrs (h0 (rj_localname self)))"
    and ok: "all_succeed env (cycle_cmds (rj_localname self) (old_up s) (old_addrs s)) h0"
  shows "\<exists>s1 h1 s2 h2.
           RJ45Node_startup env self h0 = (Inr (), s1, h1) \<and> rj_up s1 \<and>
           RJ45Node_shutdown env s1 h1 = (Inr (), s2, h2) \<and> \<not> rj_up s2 \<and>
           nic_addrs (h2 (rj_localname self)) = old_addrs s \<and>
           nic_up (h2 (rj_localname self)) = nic_up (h0 (rj_localname self)) \<and>
           filter (\<lambda>a. \<not> link_local a) (nic_addrs (h2 (rj_localname self))) =
             filter (\<lambda>a. \<not> link_local a) (nic_addrs (h0 (rj_localname self))) \<and>
           (\<forall>dev. dev \<noteq> rj_localname self \<longrightarrow> h2 dev = h0 dev)"
proof -
  let ?dev = "rj_localname self"
  let ?adds = "map (\<lambda>p. AddrAdd (fst p) (snd p) ?dev) (old_addrs s)"
  from savestate_frame [OF sv] have ln: "rj_localname s = ?dev" by simp
  define h1 where "h1 = host_effect (LinkSet ?dev True) h0"
  define h2 where "h2 = host_effect (LinkSet ?dev False) h1"
  define h3 where "h3 = host_effect (AddrFlush ?dev) h2"
  define h4 where "h4 = fold host_effect ?adds h3"
  define h5 where "h5 = (if old_up s then host_effect (LinkSet ?dev True) h4 else h4)"
  from ok have c1: "\<not> cmd_fails env (LinkSet ?dev True) h0"
    and c2: "\<not> cmd_fails env (LinkSet ?dev False) h1"
    and c3: "\<not> cmd_fails env (AddrFlush ?dev) h2"
    and c4: "all_succeed env ?adds h3"
    and c5: "old_up s \<Longrightarrow> \<not> cmd_fails env (LinkSet ?dev True) h4"
    by (simp_all add: cycle_cmds_def all_succeed_append h1_def h2_def h3_def h4_def)
  let ?s1 = "s\<lparr>rj_up := True\<rparr>"
  let ?s2 = "s\<lparr>rj_up := False\<rparr>"
  have st: "RJ45Node_startup env self h0 = (Inr (), ?s1, h1)"
    using c1 by (simp add: RJ45Node_startup_def sv ln check_call_def h1_def)
  have rs: "restorestate env ?s2 h3 = (Inr (), h5)"
    using c4 c5
    by (simp add: restorestate_def ln restore_addrs_succeed check_call_def h4_def h5_def)
  have sh: "RJ45Node_shutdown env ?s1 h1 = (Inr (), ?s2, h5)"
    using c2 c3 rs
    by (simp add: RJ45Node_shutdown_def ln check_call_def mutecall_qdisc Let_def h2_def h3_def)
  have h5: "h5 = h0(?dev := \<lparr> nic_up = old_up s, nic_addrs = old_addrs s \<rparr>)"
    by (auto simp: h5_def h4_def h3_def h2_def h1_def fold_addr_adds fun_eq_iff)
  have flt: "filter (\<lambda>a. \<not> link_local a) (old_addrs s) =
               filter (\<lambda>a. \<not> link_local a) (nic_addrs (h0 ?dev))"
    by (simp add: cap_addrs)
  show ?thesis
    apply (rule exI [of _ ?s1], rule exI [of _ h1], rule exI [of _ ?s2], rule exI [of _ h5])
    using st sh flt cap_up by (simp add: h5)
qed

theorem RJ45Node_startup_shutdown_restores_witness:
  "fst (savestate (failing_env (QdiscDel ''eth0'') sample_show) (fresh_rj45 ''eth0'') sample_host)
     = Inr () \<and>
   old_up (snd (savestate (failing_env (QdiscDel ''eth0'') sample_show) (fresh_rj45 ''eth0'') sample_host))
     = nic_up (sample_host ''eth0'') \<and>
   old_addrs (snd (savestate (failing_env (QdiscDel ''eth0'') sample_show) (fresh_rj45 ''eth0'') sample_host))
     = filter (\<lambda>a. \<not> link_local a) (nic_addrs (sample_host ''eth0'')) \<and>
   all_succeed (failing_env (QdiscDel ''eth0'') sample_show)
     (cycle_cmds ''eth0'' True [(''10.0.0.5/24'', Some ''10.0.0.255''), (''2001:db8::5/64'', None)])
     sample_host \<and>
   (\<exists>s1 h1 s2 h2.
      RJ45Node_startup (failing_env (QdiscDel ''eth0'') sample_show) (fresh_rj45 ''eth0'') sample_host
        = (Inr (), s1, h1) \<and>
      RJ45Node_shutdown (failing_env (QdiscDel ''eth0'') sample_show) s1 h1 = (Inr (), s2, h2) \<and>
      nic_up (h2 ''eth0'') \<and>
      nic_addrs (h2 ''eth0'') = [(''10.0.0.5/24'', Some ''10.0.0.255''), (''2001:db8::5/64'', None)])"
proof -
  let ?env = "failing_env (QdiscDel ''eth0'') sample_show"
  let ?self = "fresh_rj45 ''eth0''"
  let ?s = "snd (savestate ?env ?self sample_host)"
  let ?addrs = "[(''10.0.0.5/24'', Some ''10.0.0.255''), (''2001:db8::5/64'', None)]"
  have ok: "fst (savestate ?env ?self sample_host) = Inr ()" by code_simp
  then have sv: "savestate ?env ?self sample_host = (Inr (), ?s)"
    by (metis prod.collapse)
  have ln: "rj_localname ?self = ''eth0''" by (simp add: fresh_rj45_def)
  have up: "old_up ?s = nic_up (sample_host ''eth0'')" by code_simp
  have ad: "old_addrs ?s = filter (\<lambda>a. \<not> link_local a) (nic_addrs (sample_host ''eth0''))"
    by code_simp
  have v: "old_addrs ?s = ?addrs" by code_simp
  have w: "old_up ?s = True" by code_simp
  have u: "nic_up (sample_host ''eth0'')" by code_simp
  have cy: "all_succeed ?env (cycle_cmds ''eth0'' True ?addrs) sample_host" by code_simp
  then have cy': "all_succeed ?env (cycle_cmds ''eth0'' (old_up ?s) (old_addrs ?s)) sample_host"
    by (simp only: v w)
  from RJ45Node_startup_shutdown_restores [OF sv, unfolded ln, OF up ad cy']
  have "\<exists>s1 h1 s2 h2.
      RJ45Node_startup ?env ?self sample_host = (Inr (), s1, h1) \<and>
      RJ45Node_shutdown ?env s1 h1 = (Inr (), s2, h2) \<and>
      nic_up (h2 ''eth0'') \<and>
      nic_addrs (h2 ''eth0'') = ?addrs"
    unfolding v using u by (elim exE conjE) (intro exI conjI, assumption+, simp_all)
  with ok up ad cy show ?thesis by blast
qed

text \<open>
  C7 as stated lets every cycle restore the captured state. With \<open>ip addr flush\<close>
  failing, \<open>savestate\<close> captures the state and \<open>startup\<close> returns, but \<open>shutdown\<close>
  raises after \<open>ip link set down\<close>: the interface, up before \<open>startup\<close>, is left
  down, and \<open>restorestate\<close> does not run.
\<close>

theorem RJ45Node_shutdown_failing_flush_counterexample:
  "fst (savestate (failing_env (AddrFlush ''eth0'') sample_show) (fresh_rj45 ''eth0'') sample_host)
     = Inr () \<and>
   old_up (snd (savestate (failing_env (AddrFlush ''eth0'') sample_show) (fresh_rj45 ''eth0'') sample_host))
     = nic_up (sample_host ''eth0'') \<and>
   old_addrs (snd (savestate (failing_env (AddrFlush ''eth0'') sample_show) (fresh_rj45 ''eth0'') sample_host))
     = filter (\<lambda>a. \<not> link_local a) (nic_addrs (sample_host ''eth0'')) \<and>
   fst (RJ45Node_startup (failing_env (AddrFlush ''eth0'') sample_show) (fresh_rj45 ''eth0'') sample_host)
     = Inr () \<and>
   fst (RJ45Node_shutdown (failing_env (AddrFlush ''eth0'') sample_show)
          (fst (snd (RJ45Node_startup (failing_env (AddrFlush ''eth0'') sample_show)
                       (fresh_rj45 ''eth0'') sample_host)))
          (snd (snd (RJ45Node_startup (failing_env (AddrFlush ''eth0'') sample_show)
                       (fresh_rj45 ''eth0'') sample_host))))
     = Inl (CalledProcessError (AddrFlush ''eth0'')) \<and>
   nic_up (sample_host ''eth0'') \<and>
   \<not> nic_up (snd (snd (RJ45Node_shutdown (failing_env (AddrFlush ''eth0'') sample_show)
          (fst (snd (RJ45Node_startup (failing_env (AddrFlush ''eth0'') sample_show)
                       (fresh_rj45 ''eth0'') sample_host)))
          (snd (snd (RJ45Node_startup (failing_env (AddrFlush ''eth0'') sample_show)
                       (fresh_rj45 ''eth0'') sample_host))))) ''eth0'')"
  by code_simp

lemma newnetif_registry:
  assumes "rj_net self = None"
  shows "rj_netif (fst (snd (RJ45Node_newnetif env self h net addrs ifindex))) =
           (rj_netif self)((case ifindex of None \<Rightarrow> 0 | Some j \<Rightarrow> j) \<mapsto> Self) \<and>
         rj_ifindex (fst (snd (RJ45Node_newnetif env self h net addrs ifindex))) =
           Some (case ifindex of None \<Rightarrow> 0 | Some j \<Rightarrow> j) \<and>
         rj_net (fst (snd (RJ45Node_newnetif env self h net addrs ifindex))) = net"
proof -
  let ?i = "case ifindex of None \<Rightarrow> 0 | Some j \<Rightarrow> j"
  let ?s1 = "self\<lparr>rj_netif := (rj_netif self)(?i \<mapsto> Self), rj_ifindex := Some ?i\<rparr>"
  let ?s2 = "case net of None \<Rightarrow> ?s1 | Some n \<Rightarrow> attachnet ?s1 n"
  have s2: "rj_netif ?s2 = (rj_netif self)(?i \<mapsto> Self)" "rj_ifindex ?s2 = Some ?i"
    "rj_net ?s2 = net"
    using assms by (auto simp: attachnet_def split: option.splits)
  obtain r s h' where a: "addaddrs env ?s2 h addrs = (r, s, h')"
    by (cases "addaddrs env ?s2 h addrs") auto
  have "fst (snd (RJ45Node_newnetif env self h net addrs ifindex)) = s"
    using assms a by (simp add: RJ45Node_newnetif_def Let_def split: sum.splits)
  with addaddrs_frame [OF a] s2 show ?thesis by simp
qed

text \<open>
  C9, as amended. \<open>delnetif(ifindex)\<close>, with the index defaulting to 0: an index that
  is not in the registry raises the unknown-index error and leaves the node unchanged;
  the node's own ifindex is removed from the registry and \<open>shutdown\<close> runs; any other
  index of the registry is removed and the unknown-index error is raised. After
  \<open>newnetif\<close> on a node with an empty registry and no network, the registry holds the
  single key that is the node's ifindex.
\<close>

theorem RJ45Node_delnetif_cases:
  assumes "i = (case ifindex of None \<Rightarrow> 0 | Some j \<Rightarrow> j)"
  shows "(i \<notin> dom (rj_netif self) \<longrightarrow>
            RJ45Node_delnetif env self h ifindex = (Inl (ValueError (IfindexNotExist i)), self, h)) \<and>
         (i \<in> dom (rj_netif self) \<and> rj_ifindex self = Some i \<longrightarrow>
            RJ45Node_delnetif env self h ifindex =
              RJ45Node_shutdown env (self\<lparr>rj_netif := (rj_netif self)(i := None)\<rparr>) h) \<and>
         (i \<in> dom (rj_netif self) \<and> rj_ifindex self \<noteq> Some i \<longrightarrow>
            RJ45Node_delnetif env self h ifindex =
              (Inl (ValueError (IfindexNotExist i)),
               self\<lparr>rj_netif := (rj_netif self)(i := None)\<rparr>, h)) \<and>
         (rj_netif self = Map.empty \<and> rj_net self = None \<longrightarrow>
            dom (rj_netif (fst (snd (RJ45Node_newnetif env self h net addrs ifindex)))) = {i} \<and>
            rj_ifindex (fst (snd (RJ45Node_newnetif env self h net addrs ifindex))) = Some i)"
proof (intro conjI impI)
  assume "rj_netif self = Map.empty \<and> rj_net self = None"
  with newnetif_registry [of self env h net addrs ifindex] assms
  show "dom (rj_netif (fst (snd (RJ45Node_newnetif env self h net addrs ifindex)))) = {i}"
    and "rj_ifindex (fst (snd (RJ45Node_newnetif env self h net addrs ifindex))) = Some i"
    by simp_all
qed (use assms in \<open>auto simp: RJ45Node_delnetif_def Let_def\<close>)

theorem RJ45Node_delnetif_cases_witness:
  "(0::int) = (case (None :: int option) of None \<Rightarrow> 0 | Some j \<Rightarrow> j) \<and>
   0 \<notin> dom (rj_netif (fresh_rj45 ''eth0'')) \<and>
   RJ45Node_delnetif (quiet_env []) (fresh_rj45 ''eth0'') sample_host None
     = (Inl (ValueError (IfindexNotExist 0)), fresh_rj45 ''eth0'', sample_host) \<and>
   0 \<in> dom (rj_netif attached_node) \<and> rj_ifindex attached_node = Some 0 \<and>
   RJ45Node_delnetif (quiet_env []) attached_node sample_host None
     = RJ45Node_shutdown (quiet_env []) (attached_node\<lparr>rj_netif := (rj_netif attached_node)(0 := None)\<rparr>)
         sample_host \<and>
   0 \<in> dom (rj_netif two_index_node) \<and> rj_ifindex two_index_node \<noteq> Some 0 \<and>
   RJ45Node_delnetif (quiet_env []) two_index_node sample_host None
     = (Inl (ValueError (IfindexNotExist 0)),
        two_index_node\<lparr>rj_netif := (rj_netif two_index_node)(0 := None)\<rparr>, sample_host) \<and>
   rj_netif (fresh_rj45 ''eth0'') = Map.empty \<and> rj_net (fresh_rj45 ''eth0'') = None \<and>
   dom (rj_netif one_index_node) = {0}"
proof -
  have i: "(0::int) = (case (None :: int option) of None \<Rightarrow> 0 | Some j \<Rightarrow> j)" by simp
  have a: "0 \<notin> dom (rj_netif (fresh_rj45 ''eth0''))" by (simp add: fresh_rj45_def)
  have b: "0 \<in> dom (rj_netif attached_node)" "rj_ifindex attached_node = Some 0"
    by (simp_all add: attached_node_def)
  have c0: "rj_netif two_index_node 0 = Some Self" by code_simp
  then have c: "0 \<in> dom (rj_netif two_index_node)" by blast
  have c1: "rj_ifindex two_index_node = Some 1" by code_simp
  then have c': "rj_ifindex two_index_node \<noteq> Some 0" by simp
  have d: "rj_netif (fresh_rj45 ''eth0'') = Map.empty" "rj_net (fresh_rj45 ''eth0'') = None"
    by (simp_all add: fresh_rj45_def)
  note t1 = RJ45Node_delnetif_cases [OF i, of "fresh_rj45 ''eth0''" "quiet_env []" sample_host None "[]"]
  note t2 = RJ45Node_delnetif_cases [OF i, of attached_node "quiet_env []" sample_host None "[]"]
  note t3 = RJ45Node_delnetif_cases [OF i, of two_index_node "quiet_env []" sample_host None "[]"]
  from t1 a have r1: "RJ45Node_delnetif (quiet_env []) (fresh_rj45 ''eth0'') sample_host None
     = (Inl (ValueError (IfindexNotExist 0)), fresh_rj45 ''eth0'', sample_host)" by blast
  from t2 b have r2: "RJ45Node_delnetif (quiet_env []) attached_node sample_host None
     = RJ45Node_shutdown (quiet_env []) (attached_node\<lparr>rj_netif := (rj_netif attached_node)(0 := None)\<rparr>)
         sample_host" by blast
  from t3 c c' have r3: "RJ45Node_delnetif (quiet_env []) two_index_node sample_host None
     = (Inl (ValueError (IfindexNotExist 0)),
        two_index_node\<lparr>rj_netif := (rj_netif two_index_node)(0 := None)\<rparr>, sample_host)" by blast
  from t1 d have r4: "dom (rj_netif one_index_node) = {0}"
    unfolding one_index_node_def by blast
  from i a b c c' d r1 r2 r3 r4 show ?thesis by blast
qed

text \<open>
  The claim as stated lets the registry hold only the node's own ifindex. A second
  \<open>newnetif\<close> without a network, at index 1, succeeds and leaves the keys 0 and 1 in
  the registry; \<open>delnetif(0)\<close> then takes the last branch: it removes the entry and
  raises.
\<close>

theorem RJ45Node_registry_two_keys_counterexample:
  "fst (RJ45Node_newnetif (quiet_env []) (fresh_rj45 ''eth0'') sample_host None [] None) = Inr 0 \<and>
   fst (RJ45Node_newnetif (quiet_env []) one_index_node sample_host None [] (Some 1)) = Inr 1 \<and>
   rj_netif two_index_node 0 = Some Self \<and>
   rj_netif two_index_node 1 = Some Self \<and>
   rj_ifindex two_index_node = Some 1 \<and>
   fst (RJ45Node_delnetif (quiet_env []) two_index_node sample_host (Some 0))
     = Inl (ValueError (IfindexNotExist 0)) \<and>
   rj_netif (fst (snd (RJ45Node_delnetif (quiet_env []) two_index_node sample_host (Some 0)))) 0 = None \<and>
   rj_netif (fst (snd (RJ45Node_delnetif (quiet_env []) two_index_node sample_host (Some 0)))) 1 = Some Self"
  by code_simp

end
